theory Spec2Isabelle
  imports Main "HOL-Library.AList"
begin

section \<open>JavaScript values and string primitives\<close>


definition is_digit :: "char \<Rightarrow> bool" where
  "is_digit c = (c \<in> set ''0123456789'')"

definition is_space :: "char \<Rightarrow> bool" where
  "is_space c = (c \<in> {CHR 0x09, CHR 0x0A, CHR 0x0B, CHR 0x0C, CHR 0x0D, CHR '' ''})"

definition lower_char :: "char \<Rightarrow> char" where
  "lower_char c =
     (case map_of (zip ''ABCDEFGHIJKLMNOPQRSTUVWXYZ'' ''abcdefghijklmnopqrstuvwxyz'') c of
        None \<Rightarrow> c | Some d \<Rightarrow> d)"

definition upper_char :: "char \<Rightarrow> char" where
  "upper_char c =
     (case map_of (zip ''abcdefghijklmnopqrstuvwxyz'' ''ABCDEFGHIJKLMNOPQRSTUVWXYZ'') c of
        None \<Rightarrow> c | Some d \<Rightarrow> d)"

definition toLowerCase :: "string \<Rightarrow> string" where
  "toLowerCase s = map lower_char s"

definition toUpperCase :: "string \<Rightarrow> string" where
  "toUpperCase s = map upper_char s"

definition trim :: "string \<Rightarrow> string" where
  "trim s = rev (dropWhile is_space (rev (dropWhile is_space s)))"

definition startsWith :: "string \<Rightarrow> string \<Rightarrow> bool" where
  "startsWith s p = (take (length p) s = p)"

text \<open>\<^verbatim>\<open>s.replace(/[^\d]/g, '')\<close>: every character that is not a digit is dropped.\<close>

definition strip_non_digits :: "string \<Rightarrow> string" where
  "strip_non_digits s = filter is_digit s"

text \<open>
  An argument that is a string or a number. \<^verbatim>\<open>String(v || '')\<close> turns the falsy values
  (the empty string, the number 0) into the empty string and every other value into its
  string form; an integer prints in decimal, with a minus sign when negative. The numbers
  of the model are the integers, printed as JavaScript prints those below \<open>10\<^sup>2\<^sup>1\<close> in
  absolute value (from there on JavaScript prints an exponent).
\<close>

datatype jsval = JStr string | JNum int

fun nat_dec :: "nat \<Rightarrow> string" where
  "nat_dec n =
     (if n < 10 then [''0123456789'' ! n]
      else nat_dec (n div 10) @ [''0123456789'' ! (n mod 10)])"

declare nat_dec.simps [simp del]

definition int_dec :: "int \<Rightarrow> string" where
  "int_dec i = (if i < 0 then CHR ''-'' # nat_dec (nat (- i)) else nat_dec (nat i))"

fun String_or_empty :: "jsval \<Rightarrow> string" where
  "String_or_empty (JStr s) = s"
| "String_or_empty (JNum i) = (if i = 0 then [] else int_dec i)"

section \<open>sms.js: the dialing form\<close>

text \<open>
  \<^verbatim>\<open>function toE164_(digits) {
    let d = String(digits || '').replace(/[^\d]/g, '');
    if (d.length === 10) d = '1' + d;
    if (!d.startsWith('1')) d = '1' + d;
    return '+' + d; }\<close>
\<close>

definition toE164 :: "jsval \<Rightarrow> string" where
  "toE164 digits =
     (let d = strip_non_digits (String_or_empty digits);
          d = (if length d = 10 then CHR ''1'' # d else d);
          d = (if \<not> startsWith d ''1'' then CHR ''1'' # d else d)
      in CHR ''+'' # d)"

section \<open>Sheets, objects and the workbook\<close>

text \<open>
  A sheet is the grid that \<^verbatim>\<open>getDataRange().getValues()\<close> reads: a list of rows, row 0
  the header row. The platform pads every row of the rectangle with empty cells, so a read
  beyond the end of a row is the empty string, and a write beyond the last row or cell
  extends the grid with empty cells.
\<close>

type_synonym sheet = "string list list"

definition cell :: "string list \<Rightarrow> nat \<Rightarrow> string" where
  "cell row j = (if j < length row then row ! j else [])"

definition setCell :: "sheet \<Rightarrow> nat \<Rightarrow> nat \<Rightarrow> string \<Rightarrow> sheet" where
  "setCell g r c v =
     (let g' = g @ replicate (Suc r - length g) [];
          row = g' ! r;
          row' = row @ replicate (Suc c - length row) []
      in g'[r := row'[c := v]])"


text \<open>
  The SMS Log sheet, shared by \<^verbatim>\<open>logSms_\<close> and \<^verbatim>\<open>logInbound_\<close>. Each row is tagged
  with the call that appended it; the time stamp in its first cell is left out. A missing
  sheet is created empty on first use, so it is the empty list here.
\<close>

datatype log_row =
    SmsHeader
  | InboundHeader
  | SmsRow string string string int string
  | InboundRow string string string string

record workbook =
  studentDatabase :: "sheet option"
  attendance :: "sheet option"
  rawAttendanceData :: "sheet option"
  interestFormRawData :: "sheet option"
  smsLog :: "log_row list"

text \<open>
  A JavaScript object with string keys: an association list in insertion order.
  \<^verbatim>\<open>obj[k] = v\<close> is \<^const>\<open>AList.update\<close> (an existing key keeps its place), \<^verbatim>\<open>obj[k]\<close> is
  \<^const>\<open>map_of\<close> (\<open>None\<close> for \<^verbatim>\<open>undefined\<close>), \<^verbatim>\<open>Object.keys(obj)\<close> is the list of first
  components.
\<close>

type_synonym obj = "(string \<times> string) list"

definition getOr :: "obj \<Rightarrow> string \<Rightarrow> string" where
  "getOr ob k = (case map_of ob k of None \<Rightarrow> [] | Some v \<Rightarrow> v)"

section \<open>sms.js: the vendor call and the SMS Log\<close>

text \<open>
  The Script Properties that \<^verbatim>\<open>twilioProps_()\<close> reads; a property that is not set is the
  empty string (the code only tests the values for truthiness and pastes them into the
  request). The fields are the source's \<^verbatim>\<open>sid\<close>, \<^verbatim>\<open>token\<close>, \<^verbatim>\<open>msid\<close> and \<^verbatim>\<open>from\<close>.
\<close>

record twilioProps =
  tw_sid :: string
  tw_token :: string
  tw_msid :: string
  tw_from :: string

text \<open>
  What \<^verbatim>\<open>UrlFetchApp.fetch\<close> delivers, with \<^verbatim>\<open>muteHttpExceptions\<close> set: either it throws
  (no connection), or it returns a status code and a content text. The content text is
  kept by what \<^verbatim>\<open>JSON.parse\<close> makes of it: the empty text; a text that makes it throw
  (the text and the exception's message are kept); \<^verbatim>\<open>null\<close>, on which every property
  read throws a TypeError; or a value with the four properties the code reads (absent ones
  are empty, \<^verbatim>\<open>code\<close> absent is \<open>None\<close>).
\<close>

record twilio_json =
  j_sid :: string
  j_code :: "jsval option"
  j_message :: string
  j_error_message :: string

datatype body =
    EmptyBody
  | Unparsable string string
  | NullBody
  | ObjectBody twilio_json

datatype fetch_outcome = FetchThrows string | Response int body

definition empty_json :: twilio_json where
  "empty_json = \<lparr>j_sid = [], j_code = None, j_message = [], j_error_message = []\<rparr>"

definition null_read_error :: string where
  "null_read_error = ''TypeError: Cannot read properties of null''"

text \<open>\<^verbatim>\<open>a || b\<close> on strings.\<close>

definition or_else :: "string \<Rightarrow> string \<Rightarrow> string" where
  "or_else a b = (if a \<noteq> [] then a else b)"

fun truthy :: "jsval option \<Rightarrow> bool" where
  "truthy None = False"
| "truthy (Some (JStr s)) = (s \<noteq> [])"
| "truthy (Some (JNum i)) = (i \<noteq> 0)"

text \<open>
  \<^verbatim>\<open>function logSms_(to, body, sid, httpCode, err) {
    const sh = ss.getSheetByName('SMS Log') || ss.insertSheet('SMS Log');
    if (sh.getLastRow() === 0) sh.appendRow(['Timestamp','To','Body','Twilio SID','HTTP Code','Error']);
    sh.appendRow([new Date(), to, body, sid, httpCode, err]); }\<close>
\<close>

definition logSms :: "string \<Rightarrow> string \<Rightarrow> string \<Rightarrow> int \<Rightarrow> string \<Rightarrow> log_row list \<Rightarrow> log_row list" where
  "logSms dest body msgSid httpCode err sh =
     (if length sh = 0 then sh @ [SmsHeader] else sh) @ [SmsRow dest body msgSid httpCode err]"

text \<open>The result object of \<^verbatim>\<open>sendSms_\<close>; an absent property is empty or \<open>None\<close>.\<close>

record sms_result =
  s_success :: bool
  s_data :: "twilio_json option"
  s_error :: string
  s_errorCode :: "jsval option"

definition sms_failure :: "string \<Rightarrow> sms_result" where
  "sms_failure msg = \<lparr>s_success = False, s_data = None, s_error = msg, s_errorCode = None\<rparr>"

text \<open>
  \<^verbatim>\<open>sendSms_(toE164, body)\<close> of sms.js. The two configuration guards return before the
  \<^verbatim>\<open>try\<close> block; inside it the attempt is logged once after the response is parsed, or
  once in the \<^verbatim>\<open>catch\<close> block when the fetch, the parse or a property read threw.
\<close>

definition sendSms ::
  "twilioProps \<Rightarrow> fetch_outcome \<Rightarrow> string \<Rightarrow> string \<Rightarrow> log_row list \<Rightarrow> sms_result \<times> log_row list" where
  "sendSms p outcome dest body lg =
     (if tw_sid p = [] \<or> tw_token p = []
      then (sms_failure ''Missing Twilio credentials (SID/TOKEN). Add Script Properties.'', lg)
      else if tw_msid p = [] \<and> tw_from p = []
      then (sms_failure
              ''Provide TWILIO_MESSAGING_SERVICE_SID or TWILIO_FROM_NUMBER in Script Properties.'', lg)
      else
        (case outcome of
           FetchThrows err \<Rightarrow> (sms_failure err, logSms dest body [] 0 err lg)
         | Response code content \<Rightarrow>
             (case (case content of
                      EmptyBody \<Rightarrow> Inr empty_json
                    | Unparsable txt err \<Rightarrow> Inl err
                    | NullBody \<Rightarrow> Inl null_read_error
                    | ObjectBody j \<Rightarrow> Inr j) of
                Inl err \<Rightarrow> (sms_failure err, logSms dest body [] 0 err lg)
              | Inr json \<Rightarrow>
                  let lg' = logSms dest body (j_sid json) code
                              (or_else (j_error_message json) (j_message json)) lg
                  in if 200 \<le> code \<and> code < 300
                     then (\<lparr>s_success = True, s_data = Some json, s_error = [], s_errorCode = None\<rparr>, lg')
                     else (\<lparr>s_success = False, s_data = None,
                            s_error = or_else (j_message json)
                                        (or_else (j_error_message json) ''Unknown error''),
                            s_errorCode = (if truthy (j_code json) then j_code json
                                           else Some (JNum code))\<rparr>, lg'))))"

section \<open>smsSend.js: the controlled send\<close>

text \<open>
  The checks of \<^verbatim>\<open>requireAdmin_()\<close> and \<^verbatim>\<open>requirePass_()\<close> and the flag of
  \<^verbatim>\<open>isDryRun_()\<close> read Script and User Properties, the session and the clock; their
  outcomes are the three fields. A failed check throws: the result is \<open>Inl\<close> with the
  message. The pacing sleep has no effect on the workbook.

  \<^verbatim>\<open>function sendOneWithControls_(toPhoneE164, body) {
    requireAdmin_(); requirePass_();
    const delay = rateDelayMs_();
    if (isDryRun_()) safeLogSms_(toPhoneE164, '[DRY RUN] ' + body, 'DRYRUN', 0, '');
    else sendSms_(toPhoneE164, body);
    if (delay > 0) Utilities.sleep(delay); }\<close>
\<close>

record controls =
  isAdmin :: bool
  passOk :: bool
  isDryRun :: bool

definition sendOneWithControls ::
  "controls \<Rightarrow> twilioProps \<Rightarrow> fetch_outcome \<Rightarrow> string \<Rightarrow> string \<Rightarrow> log_row list \<Rightarrow>
   string + log_row list" where
  "sendOneWithControls c p outcome toPhoneE164 body lg =
     (if \<not> isAdmin c then Inl ''Not authorized (admin check failed).''
      else if \<not> passOk c then Inl ''Passcode required.''
      else if isDryRun c then Inr (logSms toPhoneE164 (''[DRY RUN] '' @ body) ''DRYRUN'' 0 [] lg)
      else Inr (snd (sendSms p outcome toPhoneE164 body lg)))"

text \<open>The send-attempt records of the SMS Log: the rows that \<^verbatim>\<open>logSms_\<close> appended.\<close>

fun is_SmsRow :: "log_row \<Rightarrow> bool" where
  "is_SmsRow (SmsRow a b c d e) = True"
| "is_SmsRow _ = False"

definition attempts_logged :: "log_row list \<Rightarrow> nat" where
  "attempts_logged lg = length (filter is_SmsRow lg)"

section \<open>smsInbound.js: the inbound webhook\<close>


text \<open>
  \<^verbatim>\<open>function logInbound_(from, body, status, sid) {
    const sh = ss.getSheetByName('SMS Log') || ss.insertSheet('SMS Log');
    if (sh.getLastRow() === 0) sh.appendRow(['Timestamp','Direction','From','Body','Status','MessageSid']);
    sh.appendRow([new Date(), 'IN', from, body, status, sid]); }\<close>
\<close>

definition logInbound :: "string \<Rightarrow> string \<Rightarrow> string \<Rightarrow> string \<Rightarrow> workbook \<Rightarrow> workbook" where
  "logInbound sender body status sid wb =
     wb\<lparr>smsLog := (if length (smsLog wb) = 0 then smsLog wb @ [InboundHeader] else smsLog wb)
                     @ [InboundRow sender body status sid]\<rparr>"





text \<open>
  The header lookup of \<^verbatim>\<open>updateOptInByPhone_\<close>: the first column whose trimmed,
  lower-cased header equals the trimmed, lower-cased name wanted; \<open>None\<close> for \<open>-1\<close>.
\<close>

fun findCol_from :: "nat \<Rightarrow> string list \<Rightarrow> string \<Rightarrow> nat option" where
  "findCol_from i [] target = None"
| "findCol_from i (h # hs) target =
     (if toLowerCase (trim h) = target then Some i else findCol_from (Suc i) hs target)"







section \<open>The field reconciler\<close>

text \<open>
  \<^verbatim>\<open>function mergeRecords_(existing, incoming) {
    const merged = { ...existing };
    Object.keys(incoming).forEach(k => {
      if (k === 'Join Date') return;
      const newVal = incoming[k];
      if (newVal !== '' && newVal !== null && newVal !== undefined) merged[k] = newVal;
    });
    return merged; }\<close>
  Field values are strings, so the tests against \<^verbatim>\<open>null\<close> and \<^verbatim>\<open>undefined\<close> hold for
  every key of \<^verbatim>\<open>incoming\<close>.
\<close>

definition mergeRecords :: "obj \<Rightarrow> obj \<Rightarrow> obj" where
  "mergeRecords existing incoming =
     foldl (\<lambda>merged k.
              if k = ''Join Date'' then merged
              else (case map_of incoming k of
                      None \<Rightarrow> merged
                    | Some newVal \<Rightarrow> if newVal \<noteq> [] then AList.update k newVal merged else merged))
       existing (map fst incoming)"

section \<open>smsBulkSend.js: the bulk sender\<close>

definition BATCH_SIZE :: nat where
  "BATCH_SIZE = 50"

definition DEFAULT_MESSAGE :: string where
  "DEFAULT_MESSAGE = ''Hello! This is a message from our system.''"

text \<open>
  The object that \<^verbatim>\<open>getTwilioCredentials()\<close> returns when it is valid (\<open>cr_from\<close> is its
  \<^verbatim>\<open>from\<close>), and the result object of \<^verbatim>\<open>sendTwilioSMS\<close>.
\<close>

record credentials =
  accountSid :: string
  authToken :: string
  cr_from :: string
  messagingServiceSid :: string

record send_result =
  success :: bool
  messageSid :: string
  errorCode :: "jsval option"
  errorMessage :: string

definition send_failure :: "jsval \<Rightarrow> string \<Rightarrow> send_result" where
  "send_failure code msg =
     \<lparr>success = False, messageSid = [], errorCode = Some code, errorMessage = msg\<rparr>"

text \<open>
  \<^verbatim>\<open>sendTwilioSMS(to, body, accountSid, authToken, from, messagingServiceSid)\<close>. The
  arguments only shape the request; the outcome of the fetch is the first argument here.
  The inner \<^verbatim>\<open>try\<close> catches the parse of the response text (the empty text does not
  parse), the outer one a thrown fetch and the property read on \<^verbatim>\<open>null\<close>. The function
  writes nothing: neither a sheet nor the SMS Log.
\<close>

definition sendTwilioSMS ::
  "fetch_outcome \<Rightarrow> string \<Rightarrow> string \<Rightarrow> string \<Rightarrow> string \<Rightarrow> string \<Rightarrow> string \<Rightarrow> send_result" where
  "sendTwilioSMS outcome dest body acct auth frm msvc =
     (if msvc = [] \<and> frm = []
      then send_failure (JStr ''CONFIG_ERROR'')
             ''Neither TWILIO_FROM nor TWILIO_MESSAGING_SERVICE_SID is configured''
      else
        (case outcome of
           FetchThrows err \<Rightarrow> send_failure (JStr ''NETWORK_ERROR'') err
         | Response responseCode content \<Rightarrow>
             (case content of
                EmptyBody \<Rightarrow>
                  send_failure (JStr ''JSON_PARSE_ERROR'') (''Failed to parse Twilio response: '' @ take 200 [])
              | Unparsable responseText err \<Rightarrow>
                  send_failure (JStr ''JSON_PARSE_ERROR'')
                    (''Failed to parse Twilio response: '' @ take 200 responseText)
              | NullBody \<Rightarrow> send_failure (JStr ''NETWORK_ERROR'') null_read_error
              | ObjectBody responseJson \<Rightarrow>
                  if responseCode = 201 \<or> responseCode = 200
                  then \<lparr>success = True, messageSid = j_sid responseJson, errorCode = None,
                         errorMessage = []\<rparr>
                  else \<lparr>success = False, messageSid = [],
                         errorCode = (if truthy (j_code responseJson) then j_code responseJson
                                      else Some (JNum responseCode)),
                         errorMessage = or_else (j_message responseJson)
                                          (or_else (j_error_message responseJson) ''Unknown error'')\<rparr>)))"

text \<open>
  The column map: script column name to 0-based column index, \<open>None\<close> for a name that
  is not mapped. \<^verbatim>\<open>getColumnValue\<close> returns \<^verbatim>\<open>null\<close> for an unmapped name; the callers
  only test it for truthiness or replace it by a default, so it is the empty string here.
\<close>

type_synonym columnMap = "string \<Rightarrow> nat option"

definition getColumnValue :: "string list \<Rightarrow> columnMap \<Rightarrow> string \<Rightarrow> string" where
  "getColumnValue rowData cm scriptColumnName =
     (case cm scriptColumnName of None \<Rightarrow> [] | Some colIndex \<Rightarrow> cell rowData colIndex)"

text \<open>
  \<^verbatim>\<open>setColumnValue(sheet, rowNumber, columnMap, name, value)\<close> writes the cell in sheet
  row \<open>rowNumber\<close> (1-based) or, for an unmapped name, logs a warning and writes nothing.
\<close>

definition setColumnValue :: "sheet \<Rightarrow> nat \<Rightarrow> columnMap \<Rightarrow> string \<Rightarrow> string \<Rightarrow> sheet" where
  "setColumnValue sh rowNumber cm scriptColumnName v =
     (case cm scriptColumnName of
        None \<Rightarrow> sh
      | Some colIndex \<Rightarrow> setCell sh (rowNumber - 1) colIndex v)"

text \<open>The text a cell shows for an error code.\<close>

fun code_text :: "jsval option \<Rightarrow> string" where
  "code_text None = []"
| "code_text (Some (JStr s)) = s"
| "code_text (Some (JNum i)) = int_dec i"

text \<open>The three row updates; \<open>now\<close> is the text of the current date.\<close>

definition updateRowSuccess :: "sheet \<Rightarrow> nat \<Rightarrow> columnMap \<Rightarrow> string \<Rightarrow> sheet" where
  "updateRowSuccess sh rowNumber cm now =
     setColumnValue
       (setColumnValue
         (setColumnValue
           (setColumnValue sh rowNumber cm ''last_sent_at'' now)
           rowNumber cm ''last_send_status'' ''SENT'')
         rowNumber cm ''last_error_code'' [])
       rowNumber cm ''last_error_message'' []"

definition updateRowOptOut :: "sheet \<Rightarrow> nat \<Rightarrow> columnMap \<Rightarrow> send_result \<Rightarrow> string \<Rightarrow> sheet" where
  "updateRowOptOut sh rowNumber cm sendResult now =
     setColumnValue
       (setColumnValue
         (setColumnValue
           (setColumnValue
             (setColumnValue sh rowNumber cm ''opt_in'' ''NO'')
             rowNumber cm ''last_send_status'' ''OPTED_OUT'')
           rowNumber cm ''last_error_code'' (code_text (errorCode sendResult)))
         rowNumber cm ''last_error_message'' (errorMessage sendResult))
       rowNumber cm ''last_sent_at'' now"

definition updateRowError :: "sheet \<Rightarrow> nat \<Rightarrow> columnMap \<Rightarrow> send_result \<Rightarrow> string \<Rightarrow> sheet" where
  "updateRowError sh rowNumber cm sendResult now =
     setColumnValue
       (setColumnValue
         (setColumnValue
           (setColumnValue sh rowNumber cm ''last_send_status'' ''FAILED'')
           rowNumber cm ''last_error_code'' (code_text (errorCode sendResult)))
         rowNumber cm ''last_error_message'' (errorMessage sendResult))
       rowNumber cm ''last_sent_at'' now"

text \<open>
  \<^verbatim>\<open>isOptedIn(value)\<close>: YES, TRUE, 1, Y, the check mark (three bytes in UTF-8) and
  CHECKED, after trimming and upper-casing.
\<close>

definition isOptedIn :: "string \<Rightarrow> bool" where
  "isOptedIn v =
     (if v = [] then False
      else let normalized = toUpperCase (trim v)
           in normalized = ''YES'' \<or> normalized = ''TRUE'' \<or> normalized = ''1'' \<or>
              normalized = ''Y'' \<or> normalized = [CHR 0xE2, CHR 0x9C, CHR 0x93] \<or>
              normalized = ''CHECKED'')"

record stats =
  processed :: nat
  sent :: nat
  skipped :: nat
  failed :: nat
  optedOut :: nat
  hasMore :: bool
  nextCursor :: nat

text \<open>
  The lines that \<^verbatim>\<open>processBatch\<close> writes to the execution log for a row, each with its
  sheet row number (the row index plus one).
\<close>

datatype batch_event =
    SkipNoPhone nat
  | SkipNotOptedIn nat
  | Sending nat
  | Succeeded nat
  | OptedOutLine nat
  | ErrorLine nat

fun event_row :: "batch_event \<Rightarrow> nat" where
  "event_row (SkipNoPhone n) = n - 1"
| "event_row (SkipNotOptedIn n) = n - 1"
| "event_row (Sending n) = n - 1"
| "event_row (Succeeded n) = n - 1"
| "event_row (OptedOutLine n) = n - 1"
| "event_row (ErrorLine n) = n - 1"

text \<open>
  The body of the \<^verbatim>\<open>while\<close> loop of \<^verbatim>\<open>processBatch\<close> for a data row: the row is read
  from \<^verbatim>\<open>allData\<close>, the snapshot taken before the loop (the loop condition keeps the index
  inside it), and the updates go to the sheet. \<open>vendor\<close> gives the outcome of the fetch
  for the row; each row is attempted at most once in a batch.
\<close>

definition processRow ::
  "(nat \<Rightarrow> fetch_outcome) \<Rightarrow> string \<Rightarrow> sheet \<Rightarrow> columnMap \<Rightarrow> credentials \<Rightarrow> nat \<Rightarrow>
   sheet \<times> stats \<times> batch_event list \<Rightarrow> sheet \<times> stats \<times> batch_event list" where
  "processRow vendor now allData cm cr rowIndex acc =
     (case acc of (sh, st0, lg) \<Rightarrow>
        let rowData = allData ! rowIndex;
            sheetRowNumber = rowIndex + 1;
            st = st0\<lparr>processed := processed st0 + 1\<rparr>;
            phone = getColumnValue rowData cm ''phone'';
            optIn = getColumnValue rowData cm ''opt_in'';
            message = or_else (getColumnValue rowData cm ''message'') DEFAULT_MESSAGE
        in if trim phone = []
           then (sh, st\<lparr>skipped := skipped st + 1\<rparr>, lg @ [SkipNoPhone sheetRowNumber])
           else if \<not> isOptedIn optIn
           then (sh, st\<lparr>skipped := skipped st + 1\<rparr>, lg @ [SkipNotOptedIn sheetRowNumber])
           else
             let sendResult = sendTwilioSMS (vendor rowIndex) phone message (accountSid cr)
                                (authToken cr) (cr_from cr) (messagingServiceSid cr)
             in if success sendResult
                then (updateRowSuccess sh sheetRowNumber cm now, st\<lparr>sent := sent st + 1\<rparr>,
                      lg @ [Sending sheetRowNumber, Succeeded sheetRowNumber])
                else if errorCode sendResult = Some (JNum 21610)
                then (updateRowOptOut sh sheetRowNumber cm sendResult now,
                      st\<lparr>optedOut := optedOut st + 1\<rparr>,
                      lg @ [Sending sheetRowNumber, OptedOutLine sheetRowNumber])
                else (updateRowError sh sheetRowNumber cm sendResult now,
                      st\<lparr>failed := failed st + 1\<rparr>,
                      lg @ [Sending sheetRowNumber, ErrorLine sheetRowNumber]))"

text \<open>
  The \<^verbatim>\<open>while\<close> loop: \<^verbatim>\<open>while (currentRow < totalRows && stats.processed < BATCH_SIZE)\<close>,
  the header row skipped without counting. It returns the final \<^verbatim>\<open>currentRow\<close> with the
  sheet, the counters and the log lines.
\<close>

function processLoop ::
  "(nat \<Rightarrow> fetch_outcome) \<Rightarrow> string \<Rightarrow> sheet \<Rightarrow> columnMap \<Rightarrow> credentials \<Rightarrow> nat \<Rightarrow>
   sheet \<times> stats \<times> batch_event list \<Rightarrow> nat \<times> sheet \<times> stats \<times> batch_event list" where
  "processLoop vendor now allData cm cr currentRow acc =
     (if currentRow < length allData \<and> processed (fst (snd acc)) < BATCH_SIZE
      then if currentRow = 0
           then processLoop vendor now allData cm cr (Suc currentRow) acc
           else processLoop vendor now allData cm cr (Suc currentRow)
                  (processRow vendor now allData cm cr currentRow acc)
      else (currentRow, acc))"
  by pat_completeness auto
termination
  by (relation "measure (\<lambda>(vendor, now, allData, cm, cr, currentRow, acc). length allData - currentRow)")
    auto

declare processLoop.simps [simp del]

text \<open>
  The cursor is the Script Property \<^verbatim>\<open>BULK_SMS_CURSOR\<close>: \<^verbatim>\<open>saveCursor\<close> stores the decimal
  text of a row index and \<^verbatim>\<open>getCursor\<close> parses it back, so the property is kept as the
  number it denotes, \<open>None\<close> when it is not set (\<^verbatim>\<open>resetCursor\<close> deletes it).
\<close>

definition getCursor :: "nat option \<Rightarrow> nat" where
  "getCursor saved = (case saved of None \<Rightarrow> 1 | Some n \<Rightarrow> n)"

definition initial_stats :: "nat \<Rightarrow> stats" where
  "initial_stats startCursor =
     \<lparr>processed = 0, sent = 0, skipped = 0, failed = 0, optedOut = 0, hasMore = False,
      nextCursor = startCursor\<rparr>"

text \<open>
  \<^verbatim>\<open>processBatch(sheet, allData, columnMap, credentials, startCursor)\<close>, with the cursor
  property that \<^verbatim>\<open>saveCursor\<close> may write: the result is the counters, the sheet, the log
  lines and the property.
\<close>

definition processBatch ::
  "(nat \<Rightarrow> fetch_outcome) \<Rightarrow> string \<Rightarrow> sheet \<Rightarrow> sheet \<Rightarrow> columnMap \<Rightarrow> credentials \<Rightarrow> nat \<Rightarrow>
   nat option \<Rightarrow> stats \<times> sheet \<times> batch_event list \<times> nat option" where
  "processBatch vendor now sh allData cm cr startCursor saved =
     (case processLoop vendor now allData cm cr startCursor (sh, initial_stats startCursor, []) of
        (currentRow, sh', st, lg) \<Rightarrow>
          if currentRow < length allData
          then (st\<lparr>hasMore := True, nextCursor := currentRow\<rparr>, sh', lg, Some currentRow)
          else (st\<lparr>hasMore := False, nextCursor := length allData\<rparr>, sh', lg, saved))"

text \<open>
  The world of \<^verbatim>\<open>sendBulkSMS()\<close>: the Student Database sheet (the only sheet of the
  spreadsheet that the bulk sender knows), the cursor property and the row lines of the
  execution log.
\<close>

record bulk_world =
  bw_sheet :: "sheet option"
  bw_cursor :: "nat option"
  bw_logger :: "batch_event list"

definition SHEET_NAME :: string where
  "SHEET_NAME = ''Student Database''"

definition COLUMN_MAPPINGS :: "(string \<times> string) list" where
  "COLUMN_MAPPINGS =
     [(''phone'', ''Phone #''), (''opt_in'', ''SMS Opt-In''), (''message'', ''Message''),
      (''last_sent_at'', ''Last Sent At''), (''last_error_code'', ''Last Error Code''),
      (''last_error_message'', ''Last Error''), (''last_send_status'', ''Send Status'')]"

text \<open>
  \<^verbatim>\<open>getSheetByName(name)\<close> on the active spreadsheet. The name is \<open>None\<close> when the
  expression that gives it is \<^verbatim>\<open>undefined\<close>; there is no sheet for it, nor for any name
  other than the Student Database's, and the result is \<^verbatim>\<open>null\<close>.
\<close>

definition getSheetByName :: "string option \<Rightarrow> bulk_world \<Rightarrow> sheet option" where
  "getSheetByName name w = (if name = Some SHEET_NAME then bw_sheet w else None)"

text \<open>
  \<^verbatim>\<open>getColumnMapping(sheet)\<close>. The reverse lookup \<^verbatim>\<open>actualColumns\<close> takes every header,
  trimmed and in lower case, to its index (the last one when a header repeats), and each
  script name is mapped through its lower-cased sheet name. The read of the header range
  throws on a sheet without any cell.
\<close>

definition actualColumns :: "string list \<Rightarrow> (string \<times> nat) list" where
  "actualColumns headerRow =
     foldl (\<lambda>acc (header, index).
              let normalized = toLowerCase (trim header)
              in if normalized \<noteq> [] then AList.update normalized index acc else acc)
       [] (zip headerRow [0..<length headerRow])"

definition getColumnMapping :: "sheet \<Rightarrow> string + columnMap" where
  "getColumnMapping sh =
     (case sh of
        [] \<Rightarrow> Inl ''The number of columns in the range must be at least 1.''
      | headerRow # dataRows \<Rightarrow>
          Inr (\<lambda>scriptName.
                 case map_of COLUMN_MAPPINGS scriptName of
                   None \<Rightarrow> None
                 | Some actualName \<Rightarrow> map_of (actualColumns headerRow) (toLowerCase actualName)))"

text \<open>
  \<^verbatim>\<open>validateColumns(columnMap)\<close>. Its first line looks the sheet up again, under
  \<^verbatim>\<open>CONFIG.SHEET_NAME\<close>. The configuration object of the bulk sender is
  \<^verbatim>\<open>BULK_SMS_CONFIG\<close>; \<^verbatim>\<open>CONFIG\<close> is the configuration object of the synchronization
  script, which has no property \<^verbatim>\<open>SHEET_NAME\<close>. So the name is \<^verbatim>\<open>undefined\<close>, the
  lookup gives \<^verbatim>\<open>null\<close>, the message about missing columns names the sheet
  \<^verbatim>\<open>undefined\<close>, and \<^verbatim>\<open>sheet.getLastColumn()\<close> throws a \<^verbatim>\<open>TypeError\<close>. (In a project
  without the synchronization script the first line throws a \<^verbatim>\<open>ReferenceError\<close>
  instead.) The rest of the function adds the tracking columns that are missing, each
  behind the last column, and extends the column map.
\<close>

definition CONFIG_SHEET_NAME :: "string option" where
  "CONFIG_SHEET_NAME = None"

definition trackingCols :: "string list" where
  "trackingCols = [''last_sent_at'', ''last_error_code'', ''last_error_message'', ''last_send_status'']"

definition mappedName :: "string \<Rightarrow> string" where
  "mappedName colName =
     (case map_of COLUMN_MAPPINGS colName of None \<Rightarrow> ''undefined'' | Some actualName \<Rightarrow> actualName)"

definition getLastColumn :: "sheet \<Rightarrow> nat" where
  "getLastColumn sh = foldr (\<lambda>row n. max (length row) n) sh 0"

fun joinComma :: "string list \<Rightarrow> string" where
  "joinComma [] = []"
| "joinComma [x] = x"
| "joinComma (x # xs) = x @ '', '' @ joinComma xs"

definition addTrackingColumn :: "sheet \<times> columnMap \<Rightarrow> string \<Rightarrow> sheet \<times> columnMap" where
  "addTrackingColumn acc colName =
     (case acc of (sh, columnMap) \<Rightarrow>
        if columnMap colName = None
        then let actualName = mappedName colName;
                 newColIndex = getLastColumn sh + 1
             in (setCell sh 0 (newColIndex - 1) actualName, columnMap(colName \<mapsto> newColIndex - 1))
        else acc)"

definition validateColumns :: "columnMap \<Rightarrow> bulk_world \<Rightarrow> string + columnMap \<times> bulk_world" where
  "validateColumns columnMap w =
     (let sheet = getSheetByName CONFIG_SHEET_NAME w;
          missing = map mappedName (filter (\<lambda>colName. columnMap colName = None) [''phone'', ''opt_in''])
      in if missing \<noteq> []
         then Inl (''Missing required columns in '' @ [CHR 0x22] @ ''undefined'' @ [CHR 0x22]
                   @ '' sheet: '' @ joinComma missing
                   @ ''. These columns must exist for the script to work.'')
         else
           (case sheet of
              None \<Rightarrow> Inl (''TypeError: Cannot read properties of null (reading ''
                           @ [CHR 0x27] @ ''getLastColumn'' @ [CHR 0x27] @ '')'')
            | Some sh \<Rightarrow>
                (case foldl addTrackingColumn (sh, columnMap) trackingCols of
                   (sh', columnMap') \<Rightarrow> Inr (columnMap', w\<lparr>bw_sheet := Some sh'\<rparr>))))"

text \<open>
  \<^verbatim>\<open>sendBulkSMS()\<close>, on the credentials that \<^verbatim>\<open>getTwilioCredentials()\<close> reads. The
  result is the error that the function throws (\<open>None\<close> when it returns) and the world
  it leaves. The \<^verbatim>\<open>catch\<close> block logs the error and throws it again.
\<close>

definition sendBulkSMS ::
  "(nat \<Rightarrow> fetch_outcome) \<Rightarrow> string \<Rightarrow> credentials \<Rightarrow> bulk_world \<Rightarrow> string option \<times> bulk_world" where
  "sendBulkSMS vendor now cr w =
     (if accountSid cr = [] \<or> authToken cr = []
      then (Some (''Invalid Twilio credentials: TWILIO_ACCOUNT_SID and TWILIO_AUTH_TOKEN ''
                  @ ''are required in Script Properties''), w)
      else if cr_from cr = [] \<and> messagingServiceSid cr = []
      then (Some (''Invalid Twilio credentials: Either TWILIO_FROM_NUMBER or ''
                  @ ''TWILIO_MESSAGING_SERVICE_SID must be set in Script Properties''), w)
      else
        (case getSheetByName (Some SHEET_NAME) w of
           None \<Rightarrow> (Some ''Sheet Student Database not found. Please create it first.'', w)
         | Some sheet \<Rightarrow>
             (case getColumnMapping sheet of
                Inl err \<Rightarrow> (Some err, w)
              | Inr columnMap0 \<Rightarrow>
                  (case validateColumns columnMap0 w of
                     Inl err \<Rightarrow> (Some err, w)
                   | Inr (columnMap, w1) \<Rightarrow>
                       let cursor = getCursor (bw_cursor w1);
                           allData = (case bw_sheet w1 of None \<Rightarrow> [] | Some values \<Rightarrow> values)
                       in if length allData \<le> 1 then (None, w1)
                          else
                            (case processBatch vendor now allData allData columnMap cr cursor
                                    (bw_cursor w1) of
                               (result, sh', lg, saved') \<Rightarrow>
                                 if hasMore result
                                 then (None, \<lparr>bw_sheet = Some sh', bw_cursor = saved',
                                              bw_logger = bw_logger w1 @ lg\<rparr>)
                                 else (None, \<lparr>bw_sheet = Some sh', bw_cursor = None,
                                              bw_logger = bw_logger w1 @ lg\<rparr>))))))"

text \<open>\<^verbatim>\<open>resetBulkSMSCursor()\<close>, the operator's menu action: \<^verbatim>\<open>resetCursor()\<close>.\<close>

definition resetBulkSMSCursor :: "bulk_world \<Rightarrow> bulk_world" where
  "resetBulkSMSCursor w = w\<lparr>bw_cursor := None\<rparr>"

section \<open>smsSend.js: the message renderer\<close>

definition LF :: char where
  "LF = CHR 0x0A"

text \<open>
  The character classes of the renderer's regular expressions: \<^verbatim>\<open>[^\S\n]\<close> (white space
  other than the line feed), \<^verbatim>\<open>[ \t]\<close>, \<^verbatim>\<open>[!?.,;:]\<close> and \<^verbatim>\<open>\w\<close>.
\<close>

definition is_hspace :: "char \<Rightarrow> bool" where
  "is_hspace c = (is_space c \<and> c \<noteq> LF)"

definition is_blank :: "char \<Rightarrow> bool" where
  "is_blank c = (c = CHR '' '' \<or> c = CHR 0x09)"

definition is_punct :: "char \<Rightarrow> bool" where
  "is_punct c = (c \<in> set ''!?.,;:'')"

definition is_word :: "char \<Rightarrow> bool" where
  "is_word c =
     (c \<in> set ''abcdefghijklmnopqrstuvwxyzABCDEFGHIJKLMNOPQRSTUVWXYZ0123456789_'')"

text \<open>
  \<^verbatim>\<open>.replace(/[^\S\n]+/g, ' ')\<close>: every maximal run of white space other than line feeds
  becomes one space. The flag tells whether the previous character belonged to a run, whose
  space is then already written.
\<close>

primrec collapse_from :: "bool \<Rightarrow> string \<Rightarrow> string" where
  "collapse_from in_run [] = []"
| "collapse_from in_run (c # cs) =
     (if is_hspace c
      then (if in_run then collapse_from True cs else CHR '' '' # collapse_from True cs)
      else c # collapse_from False cs)"

definition collapseSpaces :: "string \<Rightarrow> string" where
  "collapseSpaces s = collapse_from False s"

text \<open>
  \<^verbatim>\<open>.replace(/[ \t]+([!?.,;:])/g, '$1')\<close>: a run of spaces and tabs is removed when a
  punctuation character follows it. A run that is not followed by one stays: the greedy
  match fails at each of its positions. So a space or tab is dropped exactly when what
  follows it, after the same rewriting, begins with a punctuation character.
\<close>

primrec noSpaceBeforePunct :: "string \<Rightarrow> string" where
  "noSpaceBeforePunct [] = []"
| "noSpaceBeforePunct (c # cs) =
     (let r = noSpaceBeforePunct cs
      in if is_blank c \<and> r \<noteq> [] \<and> is_punct (hd r) then r else c # r)"

text \<open>\<^verbatim>\<open>.split('\n')\<close> and \<^verbatim>\<open>.join('\n')\<close>.\<close>

primrec splitLines :: "string \<Rightarrow> string list" where
  "splitLines [] = [[]]"
| "splitLines (c # cs) =
     (if c = LF then [] # splitLines cs
      else (case splitLines cs of [] \<Rightarrow> [[c]] | l # ls \<Rightarrow> (c # l) # ls))"

fun joinLines :: "string list \<Rightarrow> string" where
  "joinLines [] = []"
| "joinLines [l] = l"
| "joinLines (l # ls) = l @ LF # joinLines ls"

text \<open>\<^verbatim>\<open>line.replace(/^[ \t]+|[ \t]+$/g, '')\<close>.\<close>

definition trimLine :: "string \<Rightarrow> string" where
  "trimLine l = rev (dropWhile is_blank (rev (dropWhile is_blank l)))"

text \<open>
  Step 4 of \<^verbatim>\<open>uiRenderPreview\<close>, the final cleanup:
  \<^verbatim>\<open>out.replace(/[^\S\n]+/g, ' ').replace(/[ \t]+([!?.,;:])/g, '$1')
     .split('\n').map(line => line.replace(/^[ \t]+|[ \t]+$/g, '')).join('\n').trim()\<close>
\<close>

definition finalCleanup :: "string \<Rightarrow> string" where
  "finalCleanup out =
     trim (joinLines (map trimLine (splitLines (noSpaceBeforePunct (collapseSpaces out)))))"

definition count_newlines :: "string \<Rightarrow> nat" where
  "count_newlines s = length (filter (\<lambda>c. c = LF) s)"

text \<open>
  The replacement patterns of \<^verbatim>\<open>String.prototype.replace\<close> with a string replacement
  and a pattern without capture groups: \<^verbatim>\<open>$$\<close> is a dollar sign, \<^verbatim>\<open>$&\<close> the match,
  \<^verbatim>\<open>$`\<close> the text before the match and \<^verbatim>\<open>$'\<close> the text after it; any other use of a
  dollar sign stands for itself.
\<close>

fun expandReplacement :: "string \<Rightarrow> string \<Rightarrow> string \<Rightarrow> string \<Rightarrow> string" where
  "expandReplacement matched pre post [] = []"
| "expandReplacement matched pre post [c] = [c]"
| "expandReplacement matched pre post (c # d # r) =
     (if c = CHR ''$'' \<and> d = CHR ''$'' then CHR ''$'' # expandReplacement matched pre post r
      else if c = CHR ''$'' \<and> d = CHR ''&'' then matched @ expandReplacement matched pre post r
      else if c = CHR ''$'' \<and> d = CHR 0x60 then pre @ expandReplacement matched pre post r
      else if c = CHR ''$'' \<and> d = CHR 0x27 then post @ expandReplacement matched pre post r
      else c # expandReplacement matched pre post (d # r))"

text \<open>
  \<^verbatim>\<open>s.replace(/pat/g, rep)\<close> for a pattern that matches the literal text \<open>pat\<close>: the
  matches are found from the left and do not overlap. \<open>pre\<close> is the text already
  passed.
\<close>

function replaceAll_from :: "string \<Rightarrow> string \<Rightarrow> string \<Rightarrow> string \<Rightarrow> string" where
  "replaceAll_from pre pat rep s =
     (if s = [] then []
      else if pat \<noteq> [] \<and> take (length pat) s = pat
      then expandReplacement pat pre (drop (length pat) s) rep
             @ replaceAll_from (pre @ pat) pat rep (drop (length pat) s)
      else hd s # replaceAll_from (pre @ [hd s]) pat rep (tl s))"
  by pat_completeness auto
termination
  by (relation "measure (\<lambda>(pre, pat, rep, s). length s)") auto

declare replaceAll_from.simps [simp del]

definition replaceAll :: "string \<Rightarrow> string \<Rightarrow> string \<Rightarrow> string" where
  "replaceAll pat rep s = replaceAll_from [] pat rep s"

text \<open>\<^verbatim>\<open>.replace(/\r\n/g, '\n')\<close>.\<close>

definition normalizeLineBreaks :: "string \<Rightarrow> string" where
  "normalizeLineBreaks s = replaceAll [CHR 0x0D, LF] [LF] s"

text \<open>
  The event that \<^verbatim>\<open>getEventInfo_\<close> found (its fields taken to be text), and the context
  object built from it. \<^verbatim>\<open>ctx[key]\<close> is the trimmed title, date or location, or the
  footer; for the name of a property that every object inherits from
  \<^verbatim>\<open>Object.prototype\<close> it is that property (a function, or the prototype itself for
  \<^verbatim>\<open>__proto__\<close>); and for any other key it is \<^verbatim>\<open>undefined\<close>.
\<close>

record event_info =
  ev_title :: string
  ev_date :: string
  ev_location :: string

definition smsFooter :: string where
  "smsFooter = '' Reply STOP to opt out. HELP for help.''"

datatype ctx_value = CtxText string | CtxInherited | CtxUndefined

definition objectPrototypeKeys :: "string list" where
  "objectPrototypeKeys =
     [''constructor'', ''hasOwnProperty'', ''isPrototypeOf'', ''propertyIsEnumerable'',
      ''toLocaleString'', ''toString'', ''valueOf'', ''__defineGetter__'', ''__defineSetter__'',
      ''__lookupGetter__'', ''__lookupSetter__'', ''__proto__'']"

definition ctx_get :: "event_info \<Rightarrow> string \<Rightarrow> ctx_value" where
  "ctx_get ev key =
     (if key = ''title'' then CtxText (trim (ev_title ev))
      else if key = ''date'' then CtxText (trim (ev_date ev))
      else if key = ''location'' then CtxText (trim (ev_location ev))
      else if key = ''footer'' then CtxText smsFooter
      else if key \<in> set objectPrototypeKeys then CtxInherited
      else CtxUndefined)"

text \<open>
  \<^verbatim>\<open>(ctx[key] || '').trim()\<close>: the trimmed text, the empty string for \<^verbatim>\<open>undefined\<close>
  (and for the empty text), and a \<^verbatim>\<open>TypeError\<close> for an inherited property, which is
  truthy and has no method \<^verbatim>\<open>trim\<close>.
\<close>

definition ctx_trimmed :: "ctx_value \<Rightarrow> string + string" where
  "ctx_trimmed v =
     (case v of
        CtxText s \<Rightarrow> Inr (trim s)
      | CtxUndefined \<Rightarrow> Inr []
      | CtxInherited \<Rightarrow> Inl (''TypeError: (ctx[key] || '' @ [CHR 0x27, CHR 0x27] @ '').trim is not a function''))"

text \<open>
  Step 2, \<^verbatim>\<open>out.replace(/\{(\w+)\?\s*([^}]*)\}/g, (_, key, seg) => ...)\<close>. A match starts
  at an opening brace that is followed by a non-empty run of word characters (the key), a
  question mark, white space, and then the segment: everything up to the next closing
  brace, which must exist. The match is replaced by the segment when the context value of
  the key is non-empty after trimming, and by nothing otherwise; the search goes on behind
  the closing brace. The callback runs for the matches from left to right, and the first
  one that throws ends the rendering.
\<close>

function expandOptional :: "event_info \<Rightarrow> string \<Rightarrow> string + string" where
  "expandOptional ev [] = Inr []"
| "expandOptional ev (c # cs) =
     (let key = takeWhile is_word cs;
          rest1 = dropWhile is_word cs;
          rest2 = dropWhile is_space (tl rest1);
          seg = takeWhile (\<lambda>x. x \<noteq> CHR ''}'') rest2;
          rest3 = dropWhile (\<lambda>x. x \<noteq> CHR ''}'') rest2
      in if c = CHR ''{'' \<and> key \<noteq> [] \<and> rest1 \<noteq> [] \<and> hd rest1 = CHR ''?'' \<and> rest3 \<noteq> []
         then (case ctx_trimmed (ctx_get ev key) of
                 Inl err \<Rightarrow> Inl err
               | Inr val \<Rightarrow>
                   (case expandOptional ev (tl rest3) of
                      Inl err \<Rightarrow> Inl err
                    | Inr out \<Rightarrow> Inr ((if val \<noteq> [] then seg else []) @ out)))
         else (case expandOptional ev cs of
                 Inl err \<Rightarrow> Inl err
               | Inr out \<Rightarrow> Inr (c # out)))"
  by pat_completeness auto
termination
proof (relation "measure (\<lambda>(ev, s). length s)")
  show "wf (measure (\<lambda>(ev, s). length s))" by simp
next
  fix ev :: event_info and c :: char and cs key rest1 rest2 seg rest3 :: string
  assume "rest1 = dropWhile is_word cs" and "rest2 = dropWhile is_space (tl rest1)"
    and "rest3 = dropWhile (\<lambda>x. x \<noteq> CHR ''}'') rest2"
  then have "length (tl rest3) \<le> length cs"
    by (metis (no_types, lifting) length_dropWhile_le length_tl diff_le_self le_trans)
  then show "((ev, tl rest3), (ev, c # cs)) \<in> measure (\<lambda>(ev, s). length s)" by simp
next
  fix ev :: event_info and c :: char and cs :: string
  show "((ev, cs), (ev, c # cs)) \<in> measure (\<lambda>(ev, s). length s)" by simp
qed

declare expandOptional.simps [simp del]


text \<open>
  \<^verbatim>\<open>uiRenderPreview(body, eventId)\<close>, after the admin and passcode checks, on the event
  that the event id resolves to: steps 1 to 3, and then the cleanup.
\<close>

definition uiRenderPreview :: "string \<Rightarrow> event_info \<Rightarrow> string + string" where
  "uiRenderPreview body ev =
     (let out = trim (normalizeLineBreaks body);
          out = replaceAll ''{footer}'' ''<<FOOTER>>''
                  (replaceAll ''{location}'' ''<<LOCATION>>''
                    (replaceAll ''{date}'' ''<<DATE>>''
                      (replaceAll ''{title}'' ''<<TITLE>>'' out)))
      in (case expandOptional ev out of
            Inl err \<Rightarrow> Inl err
          | Inr out \<Rightarrow>
              let out = replaceAll ''<<FOOTER>>'' smsFooter
                          (replaceAll ''<<LOCATION>>'' (trim (ev_location ev))
                            (replaceAll ''<<DATE>>'' (trim (ev_date ev))
                              (replaceAll ''<<TITLE>>'' (trim (ev_title ev)) out)))
              in Inr (finalCleanup out)))"
section \<open>The student database synchronization\<close>

text \<open>
  The synchronization script (the header-alias draft). Its \<^verbatim>\<open>CONFIG\<close>: the database
  columns with the response headers accepted for each, in the order of the object literal,
  and the priority order of the match keys.
\<close>

definition fieldAliases :: "(string \<times> string list) list" where
  "fieldAliases =
     [(''Join Date'', [''Timestamp'', ''Join Date'']),
      (''Student Name'', [''Full Name (First & Last)'', ''Full Name'', ''Name'', ''Student Name'']),
      (''Role'', [''Role'']),
      (''Panther ID'', [''Panther ID'', ''PantherID'']),
      (''Discord'', [''Discord'', ''Discord Handle'']),
      (''Email'', [''Email'', ''Personal Email'']),
      (''Campus Email'', [''Campus Email'', ''Campus Email Address'', ''School Email'']),
      (''Phone #'', [''Phone Number '', ''Phone Number'', ''Phone'', ''Phone #'', ''Mobile'']),
      (''SMS Opt-In'', [''SMS Opt-In'', ''SMS Opt In'', ''Text Opt-In'', ''Text Opt In''])]"

definition matchKeys :: "string list" where
  "matchKeys = [''Campus Email'', ''Email'', ''Phone #'']"

definition eventIdHeaders :: "string list" where
  "eventIdHeaders =
     [''Event ID Attended (Pre-Filled)'', ''EventID'', ''Event Id'', ''Event'', ''Workshop'',
      ''Workshop/Event'']"

definition welcomeText :: string where
  "welcomeText = ''Thanks for opting in to Progsu SMS alerts! Cool events are coming your way. ''
                 @ ''Reply STOP to opt out. Reply HELP for help.''"

text \<open>
  \<^verbatim>\<open>readSheetAsObjects_(sheet)\<close>: the headers and one object per data row,
  \<^verbatim>\<open>headers.forEach((h, j) => obj[h] = values[i][j])\<close>. The header row spans the width of
  the data range. (JavaScript lists keys that are canonical array indices before the
  others; the code looks keys up by name or compares them with header names that contain
  letters, so the insertion order kept here decides every outcome.)
\<close>

definition rowObject :: "string list \<Rightarrow> string list \<Rightarrow> obj" where
  "rowObject headers row =
     foldl (\<lambda>ob (h, j). AList.update h (cell row j) ob) [] (zip headers [0..<length headers])"

definition readSheetAsObjects :: "sheet \<Rightarrow> string list \<times> obj list" where
  "readSheetAsObjects values =
     (case values of [] \<Rightarrow> ([], []) | headers # rest \<Rightarrow> (headers, map (rowObject headers) rest))"

text \<open>
  \<^verbatim>\<open>ensureProcessedColumn_(sheet, colName)\<close>: a missing column is added behind the last
  header.
\<close>

definition ensureProcessedColumn :: "sheet \<Rightarrow> string \<Rightarrow> sheet" where
  "ensureProcessedColumn sh colName =
     (let headers = fst (readSheetAsObjects sh)
      in if colName \<in> set headers then sh else setCell sh 0 (length headers) colName)"

text \<open>\<^verbatim>\<open>headers.indexOf(name)\<close>, \<open>None\<close> for \<open>-1\<close>.\<close>

fun indexOf_from :: "nat \<Rightarrow> string list \<Rightarrow> string \<Rightarrow> nat option" where
  "indexOf_from i [] name = None"
| "indexOf_from i (h # hs) name = (if h = name then Some i else indexOf_from (Suc i) hs name)"

definition indexOf :: "string list \<Rightarrow> string \<Rightarrow> nat option" where
  "indexOf headers name = indexOf_from 0 headers name"

text \<open>
  \<^verbatim>\<open>function inferMatchKey_(obj, keys) {
    for (const k of keys) { const v = obj[k]; if (v && String(v).trim() !== '') return k; }
    return null; }\<close>
\<close>

fun inferMatchKey :: "obj \<Rightarrow> string list \<Rightarrow> string option" where
  "inferMatchKey ob [] = None"
| "inferMatchKey ob (k # ks) = (if trim (getOr ob k) \<noteq> [] then Some k else inferMatchKey ob ks)"

definition makeIndexKey :: "string \<Rightarrow> string \<Rightarrow> string" where
  "makeIndexKey keyName keyVal = keyName @ ''::'' @ toLowerCase keyVal"

text \<open>
  \<^verbatim>\<open>function firstNonEmpty_(arr) {
    for (const v of arr) { if (v && String(v).trim() !== '') return v; }
    return ''; }\<close>
\<close>

fun firstNonEmpty :: "string list \<Rightarrow> string" where
  "firstNonEmpty [] = []"
| "firstNonEmpty (v # vs) = (if trim v \<noteq> [] then v else firstNonEmpty vs)"

text \<open>
  \<^verbatim>\<open>function normalizeFieldValue_(dbKey, value) {
    if (!value) return '';
    let v = value;
    if (dbKey === 'Email' || dbKey === 'Campus Email') v = String(v).trim().toLowerCase();
    if (dbKey === 'Phone #') { v = String(v).replace(/[^\d]/g, '');
                               if (v.length === 11 && v.startsWith('1')) v = v.slice(1); }
    if (dbKey === 'SMS Opt-In') return 'Yes';
    return v; }\<close>
\<close>

definition normalizeFieldValue :: "string \<Rightarrow> string \<Rightarrow> string" where
  "normalizeFieldValue dbKey v0 =
     (if v0 = [] then []
      else
        let v = (if dbKey = ''Email'' \<or> dbKey = ''Campus Email'' then toLowerCase (trim v0) else v0);
            v = (if dbKey = ''Phone #''
                 then (let d = strip_non_digits v
                       in if length d = 11 \<and> startsWith d ''1'' then drop 1 d else d)
                 else v)
        in if dbKey = ''SMS Opt-In'' then ''Yes'' else v)"

text \<open>
  \<^verbatim>\<open>getValueByHeader_(rowObj, headers)\<close>: for each header in turn, the first key that
  equals it after trimming and lower-casing and whose value is not blank gives the trimmed
  value; the empty string when there is none.
\<close>

fun getValueByHeader :: "obj \<Rightarrow> string list \<Rightarrow> string" where
  "getValueByHeader rowObj [] = []"
| "getValueByHeader rowObj (h # hs) =
     (case find (\<lambda>(key, v). toLowerCase (trim key) = toLowerCase (trim h) \<and> trim v \<noteq> []) rowObj of
        Some (key, v) \<Rightarrow> trim v
      | None \<Rightarrow> getValueByHeader rowObj hs)"

text \<open>
  The index of \<^verbatim>\<open>buildIndex_(rows, matchKeys)\<close>: index key to sheet row number (1-based)
  and row object; a later row with the same key replaces the earlier one.
\<close>

type_synonym dbIndex = "(string \<times> nat \<times> obj) list"

definition indexEntry :: "dbIndex \<Rightarrow> nat \<times> obj \<Rightarrow> dbIndex" where
  "indexEntry idx e =
     (case e of (i, ob) \<Rightarrow>
        let keyName = inferMatchKey ob matchKeys;
            keyVal = firstNonEmpty [getOr ob ''Campus Email'', getOr ob ''Email'',
                                    normalizeFieldValue ''Phone #'' (getOr ob ''Phone #'')]
        in (case keyName of
              None \<Rightarrow> idx
            | Some kn \<Rightarrow> if keyVal \<noteq> [] then AList.update (makeIndexKey kn keyVal) (i + 2, ob) idx
                         else idx))"

definition buildIndex :: "obj list \<Rightarrow> dbIndex" where
  "buildIndex rows = foldl indexEntry [] (zip [0..<length rows] rows)"

text \<open>\<^verbatim>\<open>writeBackRow_\<close> and \<^verbatim>\<open>appendRow_\<close>: the row is \<^verbatim>\<open>headers.map(h => obj[h] ?? '')\<close>.\<close>

definition objectRow :: "string list \<Rightarrow> obj \<Rightarrow> string list" where
  "objectRow headers ob = map (getOr ob) headers"

definition writeBackRow :: "sheet \<Rightarrow> string list \<Rightarrow> nat \<Rightarrow> obj \<Rightarrow> sheet" where
  "writeBackRow sh headers rowNumber ob =
     (let r = rowNumber - 1;
          g = sh @ replicate (Suc r - length sh) []
      in g[r := objectRow headers ob @ drop (length headers) (g ! r)])"

definition appendRow :: "sheet \<Rightarrow> string list \<Rightarrow> obj \<Rightarrow> sheet" where
  "appendRow sh headers ob = sh @ [objectRow headers ob]"

text \<open>
  The incoming record of a response row:
  \<^verbatim>\<open>Object.keys(CONFIG.fieldAliases).forEach(dbKey =>
     incoming[dbKey] = normalizeFieldValue_(dbKey, getValueByHeader_(row, CONFIG.fieldAliases[dbKey])))\<close>
\<close>

definition buildIncoming :: "obj \<Rightarrow> obj" where
  "buildIncoming row =
     map (\<lambda>(dbKey, candidateHeaders).
            (dbKey, normalizeFieldValue dbKey (getValueByHeader row candidateHeaders)))
       fieldAliases"

text \<open>
  \<^verbatim>\<open>hasAttendance_(sheet, eventId, campusEmailLower)\<close>: the columns are found by their
  trimmed, lower-cased headers; the scan compares the trimmed event id as it is and the
  trimmed campus email in lower case. On a sheet without any cell the read of the header
  range throws.
\<close>

definition hasAttendance :: "sheet \<Rightarrow> string \<Rightarrow> string \<Rightarrow> string + bool" where
  "hasAttendance sh eventId campusEmailLower =
     (if eventId = [] \<or> campusEmailLower = [] then Inr False
      else
        (case sh of
           [] \<Rightarrow> Inl ''The number of columns in the range must be at least 1.''
         | headerRow # dataRows \<Rightarrow>
             (case (findCol_from 0 headerRow ''event id'', findCol_from 0 headerRow ''campus email'') of
                (Some colEventId, Some colCampusEmail) \<Rightarrow>
                  Inr (list_ex (\<lambda>row. trim (cell row colEventId) = eventId \<and>
                                        toLowerCase (trim (cell row colCampusEmail)) = campusEmailLower)
                         dataRows)
              | _ \<Rightarrow> Inr False)))"

text \<open>
  \<^verbatim>\<open>appendAttendanceRow_(sheet, eventId, student)\<close> writes the event id and the campus
  email into the row behind the last one, and throws when a header is missing.
\<close>

definition appendAttendanceRow :: "sheet \<Rightarrow> string \<Rightarrow> obj \<Rightarrow> string + sheet" where
  "appendAttendanceRow sh eventId student =
     (case sh of
        [] \<Rightarrow> Inl ''The number of columns in the range must be at least 1.''
      | headerRow # dataRows \<Rightarrow>
          (case (findCol_from 0 headerRow ''event id'', findCol_from 0 headerRow ''campus email'') of
             (Some colEventId, Some colCampusEmail) \<Rightarrow>
               let nextRow = length sh;
                   campusEmailVal = trim (toLowerCase (getOr student ''Campus Email''));
                   sh1 = (if eventId \<noteq> [] then setCell sh nextRow colEventId eventId else sh);
                   sh2 = (if campusEmailVal \<noteq> []
                          then setCell sh1 nextRow colCampusEmail campusEmailVal else sh1)
               in Inr sh2
           | _ \<Rightarrow> Inl ''Attendance sheet must have headers Event ID and Campus Email.''))"

text \<open>
  The block marked ATTENDANCE APPEND in \<^verbatim>\<open>syncStudentDatabase\<close>, for a response row and
  the student record just saved. \<^verbatim>\<open>hasAttendance_\<close> is only called when the event id and
  the campus email are there.
\<close>

definition attendanceAppend :: "obj \<Rightarrow> obj \<Rightarrow> workbook \<Rightarrow> string + workbook" where
  "attendanceAppend row studentSaved wb =
     (case attendance wb of
        None \<Rightarrow> Inr wb
      | Some attendanceSheet \<Rightarrow>
          let eventId = getValueByHeader row eventIdHeaders;
              campusEmailKey = trim (toLowerCase (getOr studentSaved ''Campus Email''))
          in if eventId \<noteq> [] \<and> campusEmailKey \<noteq> []
             then (case hasAttendance attendanceSheet eventId campusEmailKey of
                     Inl err \<Rightarrow> Inl err
                   | Inr True \<Rightarrow> Inr wb
                   | Inr False \<Rightarrow>
                       (case appendAttendanceRow attendanceSheet eventId studentSaved of
                          Inl err \<Rightarrow> Inl err
                        | Inr sh \<Rightarrow> Inr (wb\<lparr>attendance := Some sh\<rparr>)))
             else Inr wb)"


text \<open>
  The environment of a pass: the Twilio properties, the outcome of the n-th vendor call,
  and today's date as \<^verbatim>\<open>Utilities.formatDate\<close> prints it. The state is the workbook and
  the number of \<^verbatim>\<open>sendSms_\<close> calls made.
\<close>

record sync_env =
  twilio :: twilioProps
  vendorCall :: "nat \<Rightarrow> fetch_outcome"
  today :: string

record sync_state =
  book :: workbook
  smsCalls :: nat

definition sendWelcome :: "sync_env \<Rightarrow> string \<Rightarrow> sync_state \<Rightarrow> sync_state" where
  "sendWelcome env phone st =
     (if phone \<noteq> []
      then \<lparr>book = (book st)\<lparr>smsLog :=
                     snd (sendSms (twilio env) (vendorCall env (smsCalls st)) (toE164 (JStr phone))
                            welcomeText (smsLog (book st)))\<rparr>,
            smsCalls = Suc (smsCalls st)\<rparr>
      else st)"

definition responseSheet :: "string \<Rightarrow> workbook \<Rightarrow> sheet option" where
  "responseSheet name wb =
     (if name = ''Raw Attendance Data'' then rawAttendanceData wb
      else if name = ''Interest Form Raw Data'' then interestFormRawData wb
      else None)"

definition setResponseSheet :: "string \<Rightarrow> sheet \<Rightarrow> workbook \<Rightarrow> workbook" where
  "setResponseSheet name sh wb =
     (if name = ''Raw Attendance Data'' then wb\<lparr>rawAttendanceData := Some sh\<rparr>
      else if name = ''Interest Form Raw Data'' then wb\<lparr>interestFormRawData := Some sh\<rparr>
      else wb)"

text \<open>
  \<^verbatim>\<open>sh.getRange(resp.startRow + r, processedColIdx + 1).setValue('YES')\<close>, with
  \<^verbatim>\<open>startRow\<close> 2.
\<close>

definition markProcessed :: "string \<Rightarrow> nat \<Rightarrow> nat \<Rightarrow> workbook \<Rightarrow> workbook" where
  "markProcessed name r processedColIdx wb =
     (case responseSheet name wb of
        None \<Rightarrow> wb
      | Some sh \<Rightarrow> setResponseSheet name (setCell sh (Suc r) processedColIdx ''YES'') wb)"

definition mapDatabase :: "(sheet \<Rightarrow> sheet) \<Rightarrow> workbook \<Rightarrow> workbook" where
  "mapDatabase f wb =
     (case studentDatabase wb of None \<Rightarrow> wb | Some db \<Rightarrow> wb\<lparr>studentDatabase := Some (f db)\<rparr>)"

text \<open>
  The update branch and the insert branch of the row loop: each returns the state and the
  record just saved. The existing entry comes from the index built before the loop.
\<close>

definition updateExisting ::
  "sync_env \<Rightarrow> string list \<Rightarrow> nat \<times> obj \<Rightarrow> obj \<Rightarrow> sync_state \<Rightarrow> sync_state \<times> obj" where
  "updateExisting env headers entry incoming st =
     (case entry of (rowNumber, ob) \<Rightarrow>
        let prevOpt = toLowerCase (getOr ob ''SMS Opt-In'');
            incomingOptYes = (getOr incoming ''SMS Opt-In'' = ''Yes'');
            merged = mergeRecords ob incoming;
            updated = (if incomingOptYes then AList.update ''SMS Opt-In'' ''Yes'' merged else merged);
            st1 = st\<lparr>book := mapDatabase (\<lambda>db. writeBackRow db headers rowNumber updated) (book st)\<rparr>;
            st2 = (if incomingOptYes \<and> prevOpt \<noteq> ''yes''
                   then sendWelcome env (getOr updated ''Phone #'') st1 else st1)
        in (st2, updated))"

definition insertNew ::
  "sync_env \<Rightarrow> string list \<Rightarrow> obj \<Rightarrow> sync_state \<Rightarrow> sync_state \<times> obj" where
  "insertNew env headers incoming st =
     (let blank = foldl (\<lambda>ob h. AList.update h [] ob) [] headers;
          newObj = foldl (\<lambda>ob k. AList.update k (getOr incoming k) ob) blank (map fst incoming);
          newObj = (if getOr newObj ''Join Date'' = []
                    then AList.update ''Join Date'' (today env) newObj else newObj);
          incomingOptYes = (getOr incoming ''SMS Opt-In'' = ''Yes'');
          newObj = (if incomingOptYes then AList.update ''SMS Opt-In'' ''Yes'' newObj
                    else if getOr newObj ''SMS Opt-In'' = []
                    then AList.update ''SMS Opt-In'' ''?'' newObj else newObj);
          st1 = st\<lparr>book := mapDatabase (\<lambda>db. appendRow db headers newObj) (book st)\<rparr>;
          st2 = (if incomingOptYes then sendWelcome env (getOr newObj ''Phone #'') st1 else st1)
      in (st2, newObj))"

text \<open>
  The body of the row loop for response row \<open>r\<close> of the sheet \<open>name\<close>. The first component
  of the result is the message of a thrown error, which ends the pass.
\<close>

definition processResponseRow ::
  "sync_env \<Rightarrow> string list \<Rightarrow> dbIndex \<Rightarrow> string \<Rightarrow> nat \<Rightarrow> nat \<Rightarrow> obj \<Rightarrow> sync_state \<Rightarrow>
   string option \<times> sync_state" where
  "processResponseRow env headers idx name processedColIdx r row st =
     (if toLowerCase (getOr row ''Processed'') = ''yes'' then (None, st)
      else
        let incoming = buildIncoming row;
            keyValue = firstNonEmpty [getOr incoming ''Campus Email'', getOr incoming ''Email'',
                                      getOr incoming ''Phone #''];
            matchKey = (if keyValue \<noteq> [] then inferMatchKey incoming matchKeys else None)
        in (case matchKey of
              None \<Rightarrow> (None, st\<lparr>book := markProcessed name r processedColIdx (book st)\<rparr>)
            | Some mk \<Rightarrow>
                if keyValue = []
                then (None, st\<lparr>book := markProcessed name r processedColIdx (book st)\<rparr>)
                else
                  (case (case map_of idx (makeIndexKey mk keyValue) of
                           Some existingRowEntry \<Rightarrow> updateExisting env headers existingRowEntry incoming st
                         | None \<Rightarrow> insertNew env headers incoming st) of
                     (st2, studentSaved) \<Rightarrow>
                       (case attendanceAppend row studentSaved (book st2) of
                          Inl err \<Rightarrow> (Some err, st2)
                        | Inr wb \<Rightarrow>
                            (None, st2\<lparr>book := markProcessed name r processedColIdx wb\<rparr>)))))"

fun rowsLoop ::
  "sync_env \<Rightarrow> string list \<Rightarrow> dbIndex \<Rightarrow> string \<Rightarrow> nat \<Rightarrow> nat \<Rightarrow> obj list \<Rightarrow> sync_state \<Rightarrow>
   string option \<times> sync_state" where
  "rowsLoop env headers idx name processedColIdx r [] st = (None, st)"
| "rowsLoop env headers idx name processedColIdx r (row # rest) st =
     (case processResponseRow env headers idx name processedColIdx r row st of
        (Some err, st') \<Rightarrow> (Some err, st')
      | (None, st') \<Rightarrow> rowsLoop env headers idx name processedColIdx (Suc r) rest st')"

text \<open>One response sheet: a missing sheet is skipped.\<close>

definition syncSheet ::
  "sync_env \<Rightarrow> string list \<Rightarrow> dbIndex \<Rightarrow> string \<Rightarrow> sync_state \<Rightarrow> string option \<times> sync_state" where
  "syncSheet env headers idx name st =
     (case responseSheet name (book st) of
        None \<Rightarrow> (None, st)
      | Some sh0 \<Rightarrow>
          let sh = ensureProcessedColumn sh0 ''Processed'';
              st1 = st\<lparr>book := setResponseSheet name sh (book st)\<rparr>;
              resp = readSheetAsObjects sh
          in (case indexOf (fst resp) ''Processed'' of
                None \<Rightarrow> (Some ''Processed column not found'', st1)
              | Some processedColIdx \<Rightarrow>
                  rowsLoop env headers idx name processedColIdx 0 (snd resp) st1))"

text \<open>
  \<^verbatim>\<open>syncStudentDatabase()\<close>: the database is read and indexed once, before the response
  sheets are processed in the order of \<^verbatim>\<open>CONFIG.responseSheetNames\<close>.
\<close>

definition syncStudentDatabase :: "sync_env \<Rightarrow> sync_state \<Rightarrow> string option \<times> sync_state" where
  "syncStudentDatabase env st =
     (case studentDatabase (book st) of
        None \<Rightarrow> (Some ''Sheet Student Database not found.'', st)
      | Some db \<Rightarrow>
          let dbData = readSheetAsObjects db;
              idx = buildIndex (snd dbData)
          in (case syncSheet env (fst dbData) idx ''Raw Attendance Data'' st of
                (Some err, st') \<Rightarrow> (Some err, st')
              | (None, st') \<Rightarrow> syncSheet env (fst dbData) idx ''Interest Form Raw Data'' st'))"


section \<open>Properties\<close>

subsection \<open>The field reconciler\<close>

lemma merge_fold_lookup:
  "map_of (foldl (\<lambda>merged k.
              if k = ''Join Date'' then merged
              else (case map_of incoming k of
                      None \<Rightarrow> merged
                    | Some newVal \<Rightarrow> if newVal \<noteq> [] then AList.update k newVal merged else merged))
       acc ks) k =
   (if k \<in> set ks \<and> k \<noteq> ''Join Date'' \<and> (\<exists>v. map_of incoming k = Some v \<and> v \<noteq> [])
    then map_of incoming k else map_of acc k)"
proof (induction ks arbitrary: acc)
  case Nil
  then show ?case by simp
next
  case (Cons a ks)
  let ?f = "(\<lambda>merged k.
              if k = ''Join Date'' then merged
              else (case map_of incoming k of
                      None \<Rightarrow> merged
                    | Some newVal \<Rightarrow> if newVal \<noteq> [] then AList.update k newVal merged else merged))"
  have step: "map_of (?f acc a) k =
     (if k = a \<and> k \<noteq> ''Join Date'' \<and> (\<exists>v. map_of incoming k = Some v \<and> v \<noteq> [])
      then map_of incoming k else map_of acc k)"
    by (cases "map_of incoming a") (auto simp: update_conv')
  have "map_of (foldl ?f acc (a # ks)) k = map_of (foldl ?f (?f acc a) ks) k"
    by (simp only: foldl_Cons)
  also have "\<dots> = (if k \<in> set ks \<and> k \<noteq> ''Join Date'' \<and> (\<exists>v. map_of incoming k = Some v \<and> v \<noteq> [])
    then map_of incoming k else map_of (?f acc a) k)"
    by (rule Cons.IH)
  also have "\<dots> = (if k \<in> set (a # ks) \<and> k \<noteq> ''Join Date'' \<and> (\<exists>v. map_of incoming k = Some v \<and> v \<noteq> [])
    then map_of incoming k else map_of acc k)"
    unfolding step by auto
  finally show ?case .
qed

lemma merge_fold_empty:
  "\<forall>k \<in> set ks. \<forall>v. map_of incoming k = Some v \<longrightarrow> v = [] \<Longrightarrow>
   foldl (\<lambda>merged k.
              if k = ''Join Date'' then merged
              else (case map_of incoming k of
                      None \<Rightarrow> merged
                    | Some newVal \<Rightarrow> if newVal \<noteq> [] then AList.update k newVal merged else merged))
       acc ks = acc"
proof (induction ks arbitrary: acc)
  case Nil
  show ?case by simp
next
  case (Cons a ks)
  have "map_of incoming a = None \<or> map_of incoming a = Some []"
    using Cons.prems by (cases "map_of incoming a") simp_all
  then show ?case using Cons by (auto simp del: map_of_eq_None_iff)
qed

lemma map_of_all_empty:
  "list_all (\<lambda>(k, v). v = []) incoming \<Longrightarrow> map_of incoming k = Some v \<Longrightarrow> v = []"
  by (induction incoming) (auto split: if_splits)

lemma mergeRecords_lookup:
  "map_of (mergeRecords existing incoming) k =
   (if k \<noteq> ''Join Date'' \<and> (\<exists>v. map_of incoming k = Some v \<and> v \<noteq> [])
    then map_of incoming k else map_of existing k)"
proof -
  define P where "P = (k \<noteq> ''Join Date'' \<and> (\<exists>v. map_of incoming k = Some v \<and> v \<noteq> []))"
  have mem: "P \<Longrightarrow> k \<in> set (map fst incoming)"
    unfolding P_def by (metis map_of_eq_None_iff option.distinct(1) set_map)
  have "map_of (mergeRecords existing incoming) k =
    (if k \<in> set (map fst incoming) \<and> P then map_of incoming k else map_of existing k)"
    unfolding mergeRecords_def P_def by (rule merge_fold_lookup)
  also have "\<dots> = (if P then map_of incoming k else map_of existing k)"
    using mem by (cases P) simp_all
  finally show ?thesis unfolding P_def .
qed

lemma mergeRecords_join_date:
  "map_of (mergeRecords existing incoming) ''Join Date'' = map_of existing ''Join Date''"
  using mergeRecords_lookup [of existing incoming "''Join Date''"] by simp

lemma mergeRecords_other_field:
  "k \<noteq> ''Join Date'' \<Longrightarrow> map_of (mergeRecords existing incoming) k =
        (case map_of incoming k of
           None \<Rightarrow> map_of existing k
         | Some v \<Rightarrow> if v \<noteq> [] then Some v else map_of existing k)"
  by (cases "map_of incoming k") (simp_all add: mergeRecords_lookup)

lemma mergeRecords_all_empty:
  assumes "list_all (\<lambda>(k, v). v = []) incoming"
  shows "mergeRecords existing incoming = existing"
proof -
  have "\<forall>k \<in> set (map fst incoming). \<forall>v. map_of incoming k = Some v \<longrightarrow> v = []"
    by (intro ballI allI impI) (rule map_of_all_empty [OF assms])
  from merge_fold_empty [OF this, of existing] show ?thesis
    by (simp only: mergeRecords_def)
qed

text \<open>
  C4. For every existing record and incoming field set, the merged record holds, at every
  field other than the join date, the incoming value when that value is non-empty and the
  existing value otherwise (also when the incoming set lacks the field); at the join date
  it holds the existing value; and merging an incoming set whose values are all empty
  returns the existing record itself.
\<close>

theorem mergeRecords_spec:
  "(\<forall>k. k \<noteq> ''Join Date'' \<longrightarrow>
      map_of (mergeRecords existing incoming) k =
        (case map_of incoming k of
           None \<Rightarrow> map_of existing k
         | Some v \<Rightarrow> if v \<noteq> [] then Some v else map_of existing k)) \<and>
   map_of (mergeRecords existing incoming) ''Join Date'' = map_of existing ''Join Date'' \<and>
   (list_all (\<lambda>(k, v). v = []) incoming \<longrightarrow> mergeRecords existing incoming = existing)"
  using mergeRecords_join_date mergeRecords_other_field mergeRecords_all_empty by blast

theorem mergeRecords_spec_witness:
  "mergeRecords [(''Join Date'', ''1/1/2024''), (''Email'', ''a@x.org''), (''Role'', ''member'')]
                [(''Join Date'', ''2/2/2025''), (''Email'', ''''), (''Role'', ''officer'')]
     = [(''Join Date'', ''1/1/2024''), (''Email'', ''a@x.org''), (''Role'', ''officer'')] \<and>
   mergeRecords [(''Join Date'', ''1/1/2024''), (''Email'', ''a@x.org'')]
                [(''Join Date'', ''''), (''Email'', '''')]
     = [(''Join Date'', ''1/1/2024''), (''Email'', ''a@x.org'')]"
proof -
  have "mergeRecords [(''Join Date'', ''1/1/2024''), (''Email'', ''a@x.org'')]
                [(''Join Date'', ''''), (''Email'', '''')]
     = [(''Join Date'', ''1/1/2024''), (''Email'', ''a@x.org'')]"
    using mergeRecords_spec [of "[(''Join Date'', ''1/1/2024''), (''Email'', ''a@x.org'')]"
      "[(''Join Date'', ''''), (''Email'', '''')]", THEN conjunct2, THEN conjunct2]
    by simp
  moreover have "mergeRecords [(''Join Date'', ''1/1/2024''), (''Email'', ''a@x.org''), (''Role'', ''member'')]
                [(''Join Date'', ''2/2/2025''), (''Email'', ''''), (''Role'', ''officer'')]
     = [(''Join Date'', ''1/1/2024''), (''Email'', ''a@x.org''), (''Role'', ''officer'')]"
    by (simp add: mergeRecords_def)
  ultimately show ?thesis by simp
qed

subsection \<open>Strings\<close>






lemma is_space_lower_char [simp]: "is_space (lower_char c) = is_space c"
  by (auto simp: lower_char_def is_space_def split: option.splits if_splits)

lemma lower_char_idem [simp]: "lower_char (lower_char c) = lower_char c"
  by (auto simp: lower_char_def split: option.splits if_splits)

lemma toLowerCase_idem [simp]: "toLowerCase (toLowerCase s) = toLowerCase s"
  by (simp add: toLowerCase_def)



subsection \<open>The inbound webhook\<close>


lemma setCell_in_grid:
  "r < length g \<Longrightarrow> setCell g r c v = g[r := (g ! r @ replicate (Suc c - length (g ! r)) [])[c := v]]"
  by (simp add: setCell_def Let_def)




lemma studentDatabase_logInbound [simp]:
  "studentDatabase (logInbound a b c d wb) = studentDatabase wb"
  by (simp add: logInbound_def)






subsection \<open>The send-attempt log\<close>

lemma attempts_logSms: "attempts_logged (logSms d b s c e lg) = Suc (attempts_logged lg)"
  by (simp add: attempts_logged_def logSms_def)

lemma sendSms_logs_once:
  assumes "tw_sid p \<noteq> []" and "tw_token p \<noteq> []" and "tw_msid p \<noteq> [] \<or> tw_from p \<noteq> []"
  shows "attempts_logged (snd (sendSms p outcome dest body lg)) = Suc (attempts_logged lg)"
proof (cases outcome)
  case (FetchThrows err)
  with assms show ?thesis by (auto simp: sendSms_def attempts_logSms)
next
  case (Response code content)
  with assms show ?thesis
    by (cases content) (auto simp: sendSms_def attempts_logSms Let_def)
qed

text \<open>
  C3 (as amended). An invocation of \<^verbatim>\<open>sendSms_\<close> that passes its two configuration
  guards (account SID and token set, and a messaging service or a tw_from number set)
  appends exactly one send-attempt record to the SMS Log whatever the vendor call does:
  a 2xx answer, a rejection, a thrown fetch, an unparsable or null body. The controlled
  send appends exactly one record in dry-run mode, without the guards, once the admin and
  passcode checks pass.
\<close>

theorem send_attempt_logged_once:
  "(tw_sid p \<noteq> [] \<and> tw_token p \<noteq> [] \<and> (tw_msid p \<noteq> [] \<or> tw_from p \<noteq> []) \<longrightarrow>
      attempts_logged (snd (sendSms p outcome dest body lg)) = Suc (attempts_logged lg)) \<and>
   (isAdmin c \<and> passOk c \<and>
    (isDryRun c \<or> (tw_sid p \<noteq> [] \<and> tw_token p \<noteq> [] \<and> (tw_msid p \<noteq> [] \<or> tw_from p \<noteq> []))) \<longrightarrow>
      (\<exists>lg'. sendOneWithControls c p outcome dest body lg = Inr lg' \<and>
             attempts_logged lg' = Suc (attempts_logged lg)))"
proof (intro conjI impI)
  assume "tw_sid p \<noteq> [] \<and> tw_token p \<noteq> [] \<and> (tw_msid p \<noteq> [] \<or> tw_from p \<noteq> [])"
  then show "attempts_logged (snd (sendSms p outcome dest body lg)) = Suc (attempts_logged lg)"
    using sendSms_logs_once by blast
next
  assume a: "isAdmin c \<and> passOk c \<and>
    (isDryRun c \<or> (tw_sid p \<noteq> [] \<and> tw_token p \<noteq> [] \<and> (tw_msid p \<noteq> [] \<or> tw_from p \<noteq> [])))"
  show "\<exists>lg'. sendOneWithControls c p outcome dest body lg = Inr lg' \<and>
             attempts_logged lg' = Suc (attempts_logged lg)"
  proof (cases "isDryRun c")
    case True
    with a show ?thesis by (simp add: sendOneWithControls_def attempts_logSms)
  next
    case False
    with a have "attempts_logged (snd (sendSms p outcome dest body lg)) = Suc (attempts_logged lg)"
      using sendSms_logs_once by blast
    with a False show ?thesis by (simp add: sendOneWithControls_def)
  qed
qed

theorem send_attempt_logged_once_witness:
  "attempts_logged (snd (sendSms
      \<lparr>tw_sid = ''AC1'', tw_token = ''tok'', tw_msid = ''MG1'', tw_from = []\<rparr>
      (Response 400 (ObjectBody \<lparr>j_sid = [], j_code = Some (JNum 21610),
         j_message = ''Attempt to send to unsubscribed recipient'', j_error_message = []\<rparr>))
      ''+18162379012'' ''Hello'' [])) = 1 \<and>
   (\<exists>lg'. sendOneWithControls \<lparr>isAdmin = True, passOk = True, isDryRun = True\<rparr>
      \<lparr>tw_sid = [], tw_token = [], tw_msid = [], tw_from = []\<rparr> (FetchThrows ''unreachable'')
      ''+18162379012'' ''Hello'' [] = Inr lg' \<and> attempts_logged lg' = 1)"
proof -
  let ?p = "\<lparr>tw_sid = ''AC1'', tw_token = ''tok'', tw_msid = ''MG1'', tw_from = []\<rparr>"
  let ?o = "Response 400 (ObjectBody \<lparr>j_sid = [], j_code = Some (JNum 21610),
         j_message = ''Attempt to send to unsubscribed recipient'', j_error_message = []\<rparr>)"
  have g: "tw_sid ?p \<noteq> [] \<and> tw_token ?p \<noteq> [] \<and> (tw_msid ?p \<noteq> [] \<or> tw_from ?p \<noteq> [])" by simp
  have n0: "attempts_logged [] = 0" by (simp add: attempts_logged_def)
  from send_attempt_logged_once [of ?p ?o "''+18162379012''" "''Hello''" "[]", THEN conjunct1] g
  have a: "attempts_logged (snd (sendSms ?p ?o ''+18162379012'' ''Hello'' [])) = Suc (attempts_logged [])"
    by blast
  let ?c = "\<lparr>isAdmin = True, passOk = True, isDryRun = True\<rparr>"
  let ?q = "\<lparr>tw_sid = [], tw_token = [], tw_msid = [], tw_from = []\<rparr>"
  have d: "isAdmin ?c \<and> passOk ?c \<and>
    (isDryRun ?c \<or> (tw_sid ?q \<noteq> [] \<and> tw_token ?q \<noteq> [] \<and> (tw_msid ?q \<noteq> [] \<or> tw_from ?q \<noteq> [])))"
    by simp
  from send_attempt_logged_once [of ?q "FetchThrows ''unreachable''" "''+18162379012''" "''Hello''" "[]" ?c,
      THEN conjunct2] d
  have b: "\<exists>lg'. sendOneWithControls ?c ?q (FetchThrows ''unreachable'') ''+18162379012'' ''Hello'' [] = Inr lg' \<and>
             attempts_logged lg' = Suc (attempts_logged [])"
    by blast
  from a b n0 show ?thesis by simp
qed

text \<open>
  The claim as stated fails on a configuration without credentials: \<^verbatim>\<open>sendSms_\<close> returns
  its failure object and the SMS Log is as before, without a record of the attempt.
\<close>

theorem send_without_log_counterexample:
  "sendSms \<lparr>tw_sid = [], tw_token = [], tw_msid = ''MG1'', tw_from = []\<rparr>
      (Response 201 (ObjectBody \<lparr>j_sid = ''SM1'', j_code = None, j_message = [], j_error_message = []\<rparr>))
      ''+18162379012'' ''Hello'' [SmsHeader]
   = (\<lparr>s_success = False, s_data = None,
        s_error = ''Missing Twilio credentials (SID/TOKEN). Add Script Properties.'',
        s_errorCode = None\<rparr>, [SmsHeader])"
  by (simp add: sendSms_def sms_failure_def)

subsection \<open>The bulk sender: one row and the loop\<close>

lemma processRow_processed:
  "processed (fst (snd (processRow vendor now allData cm cr r acc))) = Suc (processed (fst (snd acc)))"
  by (cases acc) (simp add: processRow_def Let_def)

lemma processRow_events:
  "\<exists>new. snd (snd (processRow vendor now allData cm cr r acc)) = snd (snd acc) @ new \<and>
         new \<noteq> [] \<and> (\<forall>ev \<in> set new. event_row ev = r)"
  by (cases acc) (simp add: processRow_def Let_def)

lemma setColumnValue_frame:
  assumes "r < length sh"
  shows "length (setColumnValue sh (Suc r) cm name v) = length sh \<and>
         (\<forall>i. i \<noteq> r \<longrightarrow> setColumnValue sh (Suc r) cm name v ! i = sh ! i)"
  using assms by (cases "cm name") (simp_all add: setColumnValue_def setCell_in_grid)

lemma updateRowSuccess_frame:
  assumes "r < length sh"
  shows "length (updateRowSuccess sh (Suc r) cm now) = length sh \<and>
         (\<forall>i. i \<noteq> r \<longrightarrow> updateRowSuccess sh (Suc r) cm now ! i = sh ! i)"
  unfolding updateRowSuccess_def using assms by (simp add: setColumnValue_frame)

lemma updateRowOptOut_frame:
  assumes "r < length sh"
  shows "length (updateRowOptOut sh (Suc r) cm res now) = length sh \<and>
         (\<forall>i. i \<noteq> r \<longrightarrow> updateRowOptOut sh (Suc r) cm res now ! i = sh ! i)"
  unfolding updateRowOptOut_def using assms by (simp add: setColumnValue_frame)

lemma updateRowError_frame:
  assumes "r < length sh"
  shows "length (updateRowError sh (Suc r) cm res now) = length sh \<and>
         (\<forall>i. i \<noteq> r \<longrightarrow> updateRowError sh (Suc r) cm res now ! i = sh ! i)"
  unfolding updateRowError_def using assms by (simp add: setColumnValue_frame)

lemma processRow_frame:
  assumes "r < length (fst acc)"
  shows "length (fst (processRow vendor now allData cm cr r acc)) = length (fst acc) \<and>
         (\<forall>i. i \<noteq> r \<longrightarrow> fst (processRow vendor now allData cm cr r acc) ! i = fst acc ! i)"
proof (cases acc)
  case (fields sh st lg)
  with assms have r: "r < length sh" by simp
  show ?thesis
    unfolding fields processRow_def
    using updateRowSuccess_frame [OF r] updateRowOptOut_frame [OF r] updateRowError_frame [OF r]
    by (simp add: Let_def)
qed

text \<open>
  Where the loop stops depends on the start, the number of rows and the batch size only,
  not on what the vendor answers.
\<close>

lemma processLoop_currentRow:
  "fst (processLoop vendor now allData cm cr a acc) =
     (if a < length allData \<and> processed (fst (snd acc)) < BATCH_SIZE
      then min (length allData) (max 1 a + (BATCH_SIZE - processed (fst (snd acc))))
      else a)"
proof (induction vendor now allData cm cr a acc rule: processLoop.induct)
  case (1 vendor now allData cm cr currentRow acc)
  show ?case
  proof (cases "currentRow < length allData \<and> processed (fst (snd acc)) < BATCH_SIZE")
    case False
    then show ?thesis by (subst processLoop.simps) auto
  next
    case True
    show ?thesis
    proof (cases "currentRow = 0")
      case True
      have "fst (processLoop vendor now allData cm cr currentRow acc) =
            fst (processLoop vendor now allData cm cr (Suc currentRow) acc)"
        using \<open>currentRow < length allData \<and> processed (fst (snd acc)) < BATCH_SIZE\<close> True
        by (subst processLoop.simps) simp
      also note "1.IH"(1) [OF \<open>currentRow < length allData \<and> processed (fst (snd acc)) < BATCH_SIZE\<close> True]
      finally show ?thesis
        using \<open>currentRow < length allData \<and> processed (fst (snd acc)) < BATCH_SIZE\<close> True
        by (cases allData) (auto simp: BATCH_SIZE_def)
    next
      case False
      have "fst (processLoop vendor now allData cm cr currentRow acc) =
            fst (processLoop vendor now allData cm cr (Suc currentRow)
                   (processRow vendor now allData cm cr currentRow acc))"
        using \<open>currentRow < length allData \<and> processed (fst (snd acc)) < BATCH_SIZE\<close> False
        by (subst processLoop.simps) simp
      also note "1.IH"(2) [OF \<open>currentRow < length allData \<and> processed (fst (snd acc)) < BATCH_SIZE\<close> False]
      finally show ?thesis
        using \<open>currentRow < length allData \<and> processed (fst (snd acc)) < BATCH_SIZE\<close> False
        by (auto simp: BATCH_SIZE_def processRow_processed)
    qed
  qed
qed

lemma processLoop_ge: "a \<le> fst (processLoop vendor now allData cm cr a acc)"
  unfolding processLoop_currentRow by (auto simp: BATCH_SIZE_def)

text \<open>
  The log lines of a loop run are those of the rows from the start to the stop, the header
  apart: every line belongs to such a row, every such row has a line, and the first line
  is the start row's.
\<close>

lemma processLoop_events:
  "\<exists>new. snd (snd (snd (processLoop vendor now allData cm cr a acc))) = snd (snd acc) @ new \<and>
     (\<forall>ev \<in> set new. a \<le> event_row ev \<and>
        event_row ev < fst (processLoop vendor now allData cm cr a acc)) \<and>
     (\<forall>i. a \<le> i \<and> i < fst (processLoop vendor now allData cm cr a acc) \<and> i \<noteq> 0 \<longrightarrow>
        i \<in> event_row ` set new) \<and>
     (0 < a \<and> a < length allData \<and> processed (fst (snd acc)) < BATCH_SIZE \<longrightarrow>
        new \<noteq> [] \<and> event_row (hd new) = a)"
proof (induction vendor now allData cm cr a acc rule: processLoop.induct)
  case (1 vendor now allData cm cr currentRow acc)
  let ?cond = "currentRow < length allData \<and> processed (fst (snd acc)) < BATCH_SIZE"
  show ?case
  proof (cases ?cond)
    case False
    then have "processLoop vendor now allData cm cr currentRow acc = (currentRow, acc)"
      by (subst processLoop.simps) auto
    with False show ?thesis by auto
  next
    case True
    show ?thesis
    proof (cases "currentRow = 0")
      case zero: True
      have eq: "processLoop vendor now allData cm cr currentRow acc =
                processLoop vendor now allData cm cr (Suc currentRow) acc"
        using True zero by (subst processLoop.simps) simp
      from "1.IH"(1) [OF True zero] obtain new where
        n: "snd (snd (snd (processLoop vendor now allData cm cr (Suc currentRow) acc))) = snd (snd acc) @ new"
        and r: "\<forall>ev \<in> set new. Suc currentRow \<le> event_row ev \<and>
                 event_row ev < fst (processLoop vendor now allData cm cr (Suc currentRow) acc)"
        and c: "\<forall>i. Suc currentRow \<le> i \<and>
                 i < fst (processLoop vendor now allData cm cr (Suc currentRow) acc) \<and> i \<noteq> 0 \<longrightarrow>
                 i \<in> event_row ` set new"
        by blast
      show ?thesis
        unfolding eq
      proof (intro exI [of _ new] conjI)
        show "snd (snd (snd (processLoop vendor now allData cm cr (Suc currentRow) acc))) = snd (snd acc) @ new"
          by (rule n)
        show "\<forall>ev \<in> set new. currentRow \<le> event_row ev \<and>
                 event_row ev < fst (processLoop vendor now allData cm cr (Suc currentRow) acc)"
          using r by auto
        show "\<forall>i. currentRow \<le> i \<and>
                 i < fst (processLoop vendor now allData cm cr (Suc currentRow) acc) \<and> i \<noteq> 0 \<longrightarrow>
                 i \<in> event_row ` set new"
          using c zero by auto
        show "0 < currentRow \<and> currentRow < length allData \<and> processed (fst (snd acc)) < BATCH_SIZE \<longrightarrow>
                new \<noteq> [] \<and> event_row (hd new) = currentRow"
          using zero by simp
      qed
    next
      case pos: False
      let ?acc1 = "processRow vendor now allData cm cr currentRow acc"
      have eq: "processLoop vendor now allData cm cr currentRow acc =
                processLoop vendor now allData cm cr (Suc currentRow) ?acc1"
        using True pos by (subst processLoop.simps) simp
      obtain n1 where n1: "snd (snd ?acc1) = snd (snd acc) @ n1" "n1 \<noteq> []"
        "\<forall>ev \<in> set n1. event_row ev = currentRow"
        using processRow_events [of vendor now allData cm cr currentRow acc] by blast
      from "1.IH"(2) [OF True pos] obtain n2 where
        n: "snd (snd (snd (processLoop vendor now allData cm cr (Suc currentRow) ?acc1))) = snd (snd ?acc1) @ n2"
        and r: "\<forall>ev \<in> set n2. Suc currentRow \<le> event_row ev \<and>
                 event_row ev < fst (processLoop vendor now allData cm cr (Suc currentRow) ?acc1)"
        and c: "\<forall>i. Suc currentRow \<le> i \<and>
                 i < fst (processLoop vendor now allData cm cr (Suc currentRow) ?acc1) \<and> i \<noteq> 0 \<longrightarrow>
                 i \<in> event_row ` set n2"
        by blast
      have ge: "Suc currentRow \<le> fst (processLoop vendor now allData cm cr (Suc currentRow) ?acc1)"
        by (rule processLoop_ge)
      have hd1: "event_row (hd n1) = currentRow"
        using n1(2,3) by (cases n1) auto
      show ?thesis
        unfolding eq
      proof (intro exI [of _ "n1 @ n2"] conjI)
        show "snd (snd (snd (processLoop vendor now allData cm cr (Suc currentRow) ?acc1))) =
              snd (snd acc) @ n1 @ n2"
          using n n1(1) by simp
        show "\<forall>ev \<in> set (n1 @ n2). currentRow \<le> event_row ev \<and>
                 event_row ev < fst (processLoop vendor now allData cm cr (Suc currentRow) ?acc1)"
          using r n1(3) ge by auto
        show "\<forall>i. currentRow \<le> i \<and>
                 i < fst (processLoop vendor now allData cm cr (Suc currentRow) ?acc1) \<and> i \<noteq> 0 \<longrightarrow>
                 i \<in> event_row ` set (n1 @ n2)"
        proof (intro allI impI)
          fix i
          assume i: "currentRow \<le> i \<and>
                 i < fst (processLoop vendor now allData cm cr (Suc currentRow) ?acc1) \<and> i \<noteq> 0"
          show "i \<in> event_row ` set (n1 @ n2)"
          proof (cases "i = currentRow")
            case True
            from n1(2) obtain e where "e \<in> set n1" by (cases n1) auto
            with n1(3) True have "i \<in> event_row ` set n1" by force
            then show ?thesis by auto
          next
            case False
            with i have "Suc currentRow \<le> i" by simp
            with c i have "i \<in> event_row ` set n2" by blast
            then show ?thesis by auto
          qed
        qed
        show "0 < currentRow \<and> currentRow < length allData \<and> processed (fst (snd acc)) < BATCH_SIZE \<longrightarrow>
                n1 @ n2 \<noteq> [] \<and> event_row (hd (n1 @ n2)) = currentRow"
          using n1(2) hd1 by simp
      qed
    qed
  qed
qed

text \<open>The loop leaves the rows before its start as they are, and the sheet's length.\<close>

lemma processLoop_frame:
  assumes "length allData \<le> length (fst acc)"
  shows "length (fst (snd (processLoop vendor now allData cm cr a acc))) = length (fst acc) \<and>
         (\<forall>i < a. fst (snd (processLoop vendor now allData cm cr a acc)) ! i = fst acc ! i)"
  using assms
proof (induction vendor now allData cm cr a acc rule: processLoop.induct)
  case (1 vendor now allData cm cr currentRow acc)
  let ?cond = "currentRow < length allData \<and> processed (fst (snd acc)) < BATCH_SIZE"
  show ?case
  proof (cases ?cond)
    case False
    then have "processLoop vendor now allData cm cr currentRow acc = (currentRow, acc)"
      by (subst processLoop.simps) auto
    then show ?thesis by simp
  next
    case True
    show ?thesis
    proof (cases "currentRow = 0")
      case zero: True
      have eq: "processLoop vendor now allData cm cr currentRow acc =
                processLoop vendor now allData cm cr (Suc currentRow) acc"
        using True zero by (subst processLoop.simps) simp
      from "1.IH"(1) [OF True zero "1.prems"] show ?thesis
        unfolding eq using zero by simp
    next
      case pos: False
      let ?acc1 = "processRow vendor now allData cm cr currentRow acc"
      have eq: "processLoop vendor now allData cm cr currentRow acc =
                processLoop vendor now allData cm cr (Suc currentRow) ?acc1"
        using True pos by (subst processLoop.simps) simp
      have lt: "currentRow < length (fst acc)" using True "1.prems" by simp
      note fr = processRow_frame [OF lt, of vendor now allData cm cr]
      have len1: "length allData \<le> length (fst ?acc1)" using fr "1.prems" by simp
      from "1.IH"(2) [OF True pos len1] fr show ?thesis
        unfolding eq by auto
    qed
  qed
qed






lemma processBatch_parts:
  "\<exists>c sh' st lg. processLoop vendor now allData cm cr startCursor (sh, initial_stats startCursor, [])
       = (c, sh', st, lg) \<and>
     fst (snd (processBatch vendor now sh allData cm cr startCursor saved)) = sh' \<and>
     fst (snd (snd (processBatch vendor now sh allData cm cr startCursor saved))) = lg \<and>
     nextCursor (fst (processBatch vendor now sh allData cm cr startCursor saved)) \<le> c \<and>
     hasMore (fst (processBatch vendor now sh allData cm cr startCursor saved)) = (c < length allData) \<and>
     snd (snd (snd (processBatch vendor now sh allData cm cr startCursor saved))) =
       (if c < length allData then Some c else saved) \<and>
     (c < length allData \<longrightarrow>
        nextCursor (fst (processBatch vendor now sh allData cm cr startCursor saved)) = c)"
proof -
  obtain c sh' st lg where
    l: "processLoop vendor now allData cm cr startCursor (sh, initial_stats startCursor, []) = (c, sh', st, lg)"
    by (metis prod_cases4)
  show ?thesis
    unfolding processBatch_def l by auto
qed
subsection \<open>The bulk sender: an unsubscribed recipient\<close>














subsection \<open>The bulk sender: resuming from the cursor\<close>

text \<open>
  \<^verbatim>\<open>getCursor\<close> and \<^verbatim>\<open>processBatch\<close> by themselves resume as intended. Started from
  the saved cursor \<open>N\<close>, the batch leaves every row before \<open>N\<close> as it was, writes log
  lines for rows from \<open>N\<close> on only, starts with row \<open>N\<close> itself when that is a data row
  of the sheet, and saves no cursor below \<open>N\<close>.
\<close>

lemma processBatch_from_cursor:
  "(\<forall>i < N. fst (snd (processBatch vendor now allData allData cm cr (getCursor (Some N)) (Some N))) ! i
       = allData ! i) \<and>
   (\<forall>ev \<in> set (fst (snd (snd (processBatch vendor now allData allData cm cr (getCursor (Some N)) (Some N))))).
       N \<le> event_row ev) \<and>
   (0 < N \<and> N < length allData \<longrightarrow>
      fst (snd (snd (processBatch vendor now allData allData cm cr (getCursor (Some N)) (Some N)))) \<noteq> [] \<and>
      event_row (hd (fst (snd (snd (processBatch vendor now allData allData cm cr (getCursor (Some N)) (Some N))))))
        = N) \<and>
   (\<forall>c. snd (snd (snd (processBatch vendor now allData allData cm cr (getCursor (Some N)) (Some N)))) = Some c
      \<longrightarrow> N \<le> c)"
proof -
  let ?acc = "(allData, initial_stats N, [] :: batch_event list)"
  have g: "getCursor (Some N) = N" by (simp add: getCursor_def)
  from processBatch_parts [of vendor now allData cm cr N allData "Some N"]
  obtain c sh' st lg where
    l: "processLoop vendor now allData cm cr N ?acc = (c, sh', st, lg)"
    and sh: "fst (snd (processBatch vendor now allData allData cm cr N (Some N))) = sh'"
    and lg: "fst (snd (snd (processBatch vendor now allData allData cm cr N (Some N)))) = lg"
    and sv: "snd (snd (snd (processBatch vendor now allData allData cm cr N (Some N)))) =
              (if c < length allData then Some c else Some N)"
    by blast
  from processLoop_events [of vendor now allData cm cr N ?acc] l
  have ev: "\<forall>ev \<in> set lg. N \<le> event_row ev \<and> event_row ev < c"
    and first: "0 < N \<and> N < length allData \<longrightarrow> lg \<noteq> [] \<and> event_row (hd lg) = N"
    by (auto simp: initial_stats_def BATCH_SIZE_def)
  have ge: "N \<le> c" using processLoop_ge [of N vendor now allData cm cr ?acc] l by simp
  have "length allData \<le> length (fst ?acc)" by simp
  from processLoop_frame [OF this, of vendor now cm cr N] l
  have frame: "\<forall>i < N. sh' ! i = allData ! i" by simp
  show ?thesis
    unfolding g sh lg sv using frame ev first ge by auto
qed

text \<open>
  C9 (the code as it is). No run of \<^verbatim>\<open>sendBulkSMS\<close> gets as far as the cursor. Whatever
  the credentials, the sheet, the saved cursor and the vendor are, the run ends with a
  thrown error and leaves the sheet, the cursor and the log of rows as they were: with
  credentials, a sheet and both required columns it is \<^verbatim>\<open>validateColumns\<close> that throws,
  on the sheet it looked up under the undefined \<^verbatim>\<open>CONFIG.SHEET_NAME\<close>, before
  \<^verbatim>\<open>getCursor\<close> is called. So no row is processed, from the saved cursor or from anywhere
  else, and the cursor is neither advanced nor reset.
\<close>

theorem sendBulkSMS_throws:
  "\<exists>err. sendBulkSMS vendor now cr w = (Some err, w)"
proof -
  have v: "\<exists>err. validateColumns columnMap w = Inl err" for columnMap
    by (simp add: validateColumns_def getSheetByName_def CONFIG_SHEET_NAME_def Let_def)
  show ?thesis
  proof (cases "getSheetByName (Some SHEET_NAME) w")
    case None
    then show ?thesis by (simp add: sendBulkSMS_def)
  next
    case (Some sheet)
    show ?thesis
    proof (cases "getColumnMapping sheet")
      case (Inl err)
      with Some show ?thesis by (simp add: sendBulkSMS_def)
    next
      case (Inr columnMap0)
      from v [of columnMap0] obtain err where "validateColumns columnMap0 w = Inl err" ..
      with Some Inr show ?thesis by (simp add: sendBulkSMS_def)
    qed
  qed
qed

text \<open>
  A run with valid credentials on a sheet with both required columns and three
  recipients, the cursor saved at row 2.
\<close>

lemma sendBulkSMS_throws_example:
  "sendBulkSMS
     (\<lambda>r. Response 201 (ObjectBody \<lparr>j_sid = ''SM1'', j_code = None, j_message = [], j_error_message = []\<rparr>))
     ''2026-01-01''
     \<lparr>accountSid = ''AC1'', authToken = ''tok'', cr_from = [], messagingServiceSid = ''MG1''\<rparr>
     \<lparr>bw_sheet = Some [[''Phone #'', ''SMS Opt-In''], [''8162379011'', ''Yes''],
                       [''8162379012'', ''Yes''], [''8162379013'', ''Yes'']],
      bw_cursor = Some 2, bw_logger = []\<rparr>
   = (Some (''TypeError: Cannot read properties of null (reading '' @ [CHR 0x27]
            @ ''getLastColumn'' @ [CHR 0x27] @ '')''),
      \<lparr>bw_sheet = Some [[''Phone #'', ''SMS Opt-In''], [''8162379011'', ''Yes''],
                        [''8162379012'', ''Yes''], [''8162379013'', ''Yes'']],
       bw_cursor = Some 2, bw_logger = []\<rparr>)"
  by code_simp
subsection \<open>The renderer's cleanup pass\<close>





lemma count_newlines_simps [simp]:
  "count_newlines [] = 0"
  "count_newlines (c # cs) = (if c = LF then Suc (count_newlines cs) else count_newlines cs)"
  "count_newlines (xs @ ys) = count_newlines xs + count_newlines ys"
  by (simp_all add: count_newlines_def)











lemma count_newlines_rev [simp]: "count_newlines (rev s) = count_newlines s"
  by (induction s) auto










































































text \<open>
  An optional block whose key names a property that the context object inherits makes the
  rendering throw.
\<close>

lemma uiRenderPreview_inherited_key:
  "uiRenderPreview ''Hi {constructor? there}'' \<lparr>ev_title = ''Demo'', ev_date = [], ev_location = []\<rparr>
     = Inl (''TypeError: (ctx[key] || '' @ [CHR 0x27, CHR 0x27] @ '').trim is not a function'')"
  by code_simp



subsection \<open>The synchronization pass on repeated submissions\<close>

text \<open>
  C1 (the code at the failing input). The database holds the header row only, and the
  response sheet holds two unprocessed submissions with the same campus email. The index
  is built before the loop and not extended by the insert, so the second submission finds
  no entry either: the pass ends normally with two roster rows for the one identity.
\<close>

theorem sync_same_pass_inserts_twice:
  "syncStudentDatabase
     \<lparr>twilio = \<lparr>tw_sid = ''AC1'', tw_token = ''tok'', tw_msid = ''MG1'', tw_from = []\<rparr>,
      vendorCall = (\<lambda>n. Response 201 (ObjectBody
         \<lparr>j_sid = ''SM1'', j_code = None, j_message = [], j_error_message = []\<rparr>)),
      today = ''11/3/2026''\<rparr>
     \<lparr>book = \<lparr>studentDatabase = Some [[''Join Date'', ''Student Name'', ''Campus Email'']],
              attendance = None,
              rawAttendanceData = Some
                [[''Timestamp'', ''Full Name'', ''Campus Email''],
                 [''1/1/2026'', ''Ann Lee'', ''ann@gsu.edu''],
                 [''1/2/2026'', ''Ann Lee'', ''ann@gsu.edu'']],
              interestFormRawData = None, smsLog = []\<rparr>,
      smsCalls = 0\<rparr>
   = (None,
      \<lparr>book = \<lparr>studentDatabase = Some
                [[''Join Date'', ''Student Name'', ''Campus Email''],
                 [''1/1/2026'', ''Ann Lee'', ''ann@gsu.edu''],
                 [''1/2/2026'', ''Ann Lee'', ''ann@gsu.edu'']],
               attendance = None,
               rawAttendanceData = Some
                [[''Timestamp'', ''Full Name'', ''Campus Email'', ''Processed''],
                 [''1/1/2026'', ''Ann Lee'', ''ann@gsu.edu'', ''YES''],
                 [''1/2/2026'', ''Ann Lee'', ''ann@gsu.edu'', ''YES'']],
               interestFormRawData = None, smsLog = []\<rparr>,
       smsCalls = 0\<rparr>)"
  by code_simp

text \<open>
  C6 (the code at the failing input). The roster holds one record with opt-in \<open>?\<close>, and
  the response sheet holds two unprocessed submissions of that person, both with the
  opt-in box ticked. Both are compared with the record as it was read before the loop,
  so the welcome message is sent for each of them: two vendor calls and two log records
  for one transition.
\<close>

theorem sync_same_pass_welcomes_twice:
  "syncStudentDatabase
     \<lparr>twilio = \<lparr>tw_sid = ''AC1'', tw_token = ''tok'', tw_msid = ''MG1'', tw_from = []\<rparr>,
      vendorCall = (\<lambda>n. Response 201 (ObjectBody
         \<lparr>j_sid = ''SM1'', j_code = None, j_message = [], j_error_message = []\<rparr>)),
      today = ''11/3/2026''\<rparr>
     \<lparr>book = \<lparr>studentDatabase = Some
                [[''Campus Email'', ''Phone #'', ''SMS Opt-In''],
                 [''ann@gsu.edu'', ''8162379012'', ''?'']],
              attendance = None,
              rawAttendanceData = Some
                [[''Campus Email'', ''SMS Opt-In''],
                 [''ann@gsu.edu'', ''I agree''],
                 [''ann@gsu.edu'', ''I agree'']],
              interestFormRawData = None, smsLog = []\<rparr>,
      smsCalls = 0\<rparr>
   = (None,
      \<lparr>book = \<lparr>studentDatabase = Some
                [[''Campus Email'', ''Phone #'', ''SMS Opt-In''],
                 [''ann@gsu.edu'', ''8162379012'', ''Yes'']],
               attendance = None,
               rawAttendanceData = Some
                [[''Campus Email'', ''SMS Opt-In'', ''Processed''],
                 [''ann@gsu.edu'', ''I agree'', ''YES''],
                 [''ann@gsu.edu'', ''I agree'', ''YES'']],
               interestFormRawData = None,
               smsLog = [SmsHeader,
                         SmsRow ''+18162379012'' welcomeText ''SM1'' 201 [],
                         SmsRow ''+18162379012'' welcomeText ''SM1'' 201 []]\<rparr>,
       smsCalls = 2\<rparr>)"
  by code_simp

subsection \<open>The attendance deduplicator\<close>















lemma attendance_setResponseSheet [simp]:
  "attendance (setResponseSheet name sh wb) = attendance wb"
  by (simp add: setResponseSheet_def)

lemma attendance_markProcessed [simp]:
  "attendance (markProcessed name r i wb) = attendance wb"
  by (cases "responseSheet name wb") (simp_all add: markProcessed_def)

lemma attendance_mapDatabase [simp]: "attendance (mapDatabase f wb) = attendance wb"
  by (cases "studentDatabase wb") (simp_all add: mapDatabase_def)

lemma attendance_sendWelcome [simp]:
  "attendance (book (sendWelcome env phone st)) = attendance (book st)"
  by (simp add: sendWelcome_def)

lemma attendance_updateExisting [simp]:
  "attendance (book (fst (updateExisting env headers entry incoming st))) = attendance (book st)"
  by (cases entry) (simp add: updateExisting_def Let_def)

lemma attendance_insertNew [simp]:
  "attendance (book (fst (insertNew env headers incoming st))) = attendance (book st)"
  by (simp add: insertNew_def Let_def)


text \<open>Nor does anything but the marking of a row write a response sheet.\<close>

lemma responseSheet_attendance_update [simp]:
  "responseSheet n (wb\<lparr>attendance := a\<rparr>) = responseSheet n wb"
  by (simp add: responseSheet_def)

lemma responseSheet_smsLog_update [simp]:
  "responseSheet n (wb\<lparr>smsLog := a\<rparr>) = responseSheet n wb"
  by (simp add: responseSheet_def)



lemma responseSheet_mapDatabase [simp]: "responseSheet n (mapDatabase f wb) = responseSheet n wb"
  by (cases "studentDatabase wb") (simp_all add: mapDatabase_def responseSheet_def)

lemma responseSheet_sendWelcome [simp]:
  "responseSheet n (book (sendWelcome env phone st)) = responseSheet n (book st)"
  by (simp add: sendWelcome_def)

lemma responseSheet_updateExisting [simp]:
  "responseSheet n (book (fst (updateExisting env headers entry incoming st))) = responseSheet n (book st)"
  by (cases entry) (simp add: updateExisting_def Let_def)

lemma responseSheet_insertNew [simp]:
  "responseSheet n (book (fst (insertNew env headers incoming st))) = responseSheet n (book st)"
  by (simp add: insertNew_def Let_def)






















text \<open>
  C10. For every input of the dialing-form normalizer (a string or a number, the empty
  string and inputs without any digit included) the result begins with \<open>+1\<close>; an
  input without digits gives exactly \<open>+1\<close>; and when the digits of the input are not
  10 in number and do not begin with \<open>1\<close>, the result is \<open>+1\<close> followed by those
  digits: a leading 1 is prepended, the digits are not passed through unchanged.
\<close>

theorem toE164_begins_plus_one:
  "take 2 (toE164 v) = ''+1'' \<and>
   (strip_non_digits (String_or_empty v) = [] \<longrightarrow> toE164 v = ''+1'') \<and>
   (length (strip_non_digits (String_or_empty v)) \<noteq> 10 \<and>
    \<not> startsWith (strip_non_digits (String_or_empty v)) ''1'' \<longrightarrow>
      toE164 v = ''+1'' @ strip_non_digits (String_or_empty v))"
proof -
  have a: "take 2 (toE164 v) = ''+1''"
  proof (cases "strip_non_digits (String_or_empty v)")
    case Nil
    then show ?thesis by (simp add: toE164_def startsWith_def)
  next
    case (Cons c cs)
    then show ?thesis by (auto simp: toE164_def startsWith_def Let_def)
  qed
  have b: "strip_non_digits (String_or_empty v) = [] \<longrightarrow> toE164 v = ''+1''"
    by (simp add: toE164_def startsWith_def)
  have c: "length (strip_non_digits (String_or_empty v)) \<noteq> 10 \<and>
    \<not> startsWith (strip_non_digits (String_or_empty v)) ''1'' \<longrightarrow>
      toE164 v = ''+1'' @ strip_non_digits (String_or_empty v)"
    by (simp add: toE164_def Let_def)
  from a b c show ?thesis by blast
qed

theorem toE164_begins_plus_one_witness:
  "toE164 (JStr ''n/a'') = ''+1'' \<and> toE164 (JStr ''555-0100'') = ''+15550100'' \<and>
   take 2 (toE164 (JNum 8162379012)) = ''+1''"
  using toE164_begins_plus_one [of "JStr ''n/a''"] toE164_begins_plus_one [of "JStr ''555-0100''"]
    toE164_begins_plus_one [of "JNum 8162379012"]
  by (simp add: strip_non_digits_def is_digit_def startsWith_def)

end
